theory Spec2Isabelle
  imports Main
begin

section \<open>Errors (package repositoryerr and the error chains of Go)\<close>

text \<open>
  A Go error value is modelled by its chain: an opaque error made by \<^verbatim>\<open>errors.New\<close> or
  returned by a library (identified by its message), the driver's \<^verbatim>\<open>*pq.Error\<close> with its
  SQLSTATE code, an error wrapped by \<^verbatim>\<open>fmt.Errorf("...: %w", err)\<close>, and the repository's
  own \<^verbatim>\<open>*RepositoryError{Code, Op, Err}\<close>.
\<close>

datatype err =
    ErrNew string
  | PqError string
  | Errorf string err
  | RepositoryError string string err

abbreviation ErrMessageNotFound :: err where
  "ErrMessageNotFound \<equiv> ErrNew ''message not found''"

abbreviation ErrorCodeMessageNotFound :: string where
  "ErrorCodeMessageNotFound \<equiv> ''MESSAGE_NOT_FOUND''"

abbreviation ErrorCodeDatabaseConnection :: string where
  "ErrorCodeDatabaseConnection \<equiv> ''DATABASE_CONNECTION_ERROR''"

abbreviation ErrorCodeDuplicateEntry :: string where
  "ErrorCodeDuplicateEntry \<equiv> ''DUPLICATE_ENTRY''"

abbreviation ErrorCodeInvalidInput :: string where
  "ErrorCodeInvalidInput \<equiv> ''INVALID_INPUT''"

abbreviation ErrorCodeTransactionFailed :: string where
  "ErrorCodeTransactionFailed \<equiv> ''TRANSACTION_FAILED''"

abbreviation ErrorCodeSerializationFailed :: string where
  "ErrorCodeSerializationFailed \<equiv> ''SERIALIZATION_FAILED''"

text \<open>\<^verbatim>\<open>repositoryerr.New(code, op, err)\<close>.\<close>

definition New :: "string \<Rightarrow> string \<Rightarrow> err \<Rightarrow> err" where
  "New code op e = RepositoryError code op e"

text \<open>
  \<^verbatim>\<open>errors.As(err, &repoErr)\<close> with \<^verbatim>\<open>repoErr *RepositoryError\<close>: the first
  \<^verbatim>\<open>RepositoryError\<close> of the chain, as its fields (Code, Op, Err).
\<close>

fun errors_As :: "err \<Rightarrow> (string \<times> string \<times> err) option" where
  "errors_As (ErrNew m) = None"
| "errors_As (PqError c) = None"
| "errors_As (Errorf m e) = errors_As e"
| "errors_As (RepositoryError code op e) = Some (code, op, e)"

definition ErrorCode :: "string \<times> string \<times> err \<Rightarrow> string" where
  "ErrorCode r = fst r"



section \<open>Data model (package model)\<close>

text \<open>
  \<^verbatim>\<open>model.Message\<close> and \<^verbatim>\<open>model.Statistics\<close>. Go's \<^verbatim>\<open>int64\<close> fields are
  integers (the JSON decoder is where the 64-bit range is checked); a \<^verbatim>\<open>time.Time\<close> is
  an instant of a logical clock.
\<close>

record Message =
  ID :: int
  Content :: string
  Processed :: bool
  CreatedAt :: nat
  UpdatedAt :: nat

record Statistics =
  TotalMessages :: int
  ProcessedMessages :: int
  UnprocessedMessages :: int

section \<open>JSON payloads\<close>

text \<open>
  A broker payload is a byte slice. It is represented by its JSON syntax tree when it is
  syntactically valid JSON and by its raw text otherwise. A number literal without
  fraction and exponent is \<open>JInt\<close>; any other number literal keeps its text.
\<close>

datatype json =
    JNull
  | JBool bool
  | JInt int
  | JReal string
  | JString string
  | JArray "json list"
  | JObject "(string \<times> json) list"

datatype bytes = NotJSON string | JSON json

section \<open>The environment: database, broker, clock, log\<close>

text \<open>
  The table \<^verbatim>\<open>messages\<close> of \<^verbatim>\<open>createMessagesTable\<close> is the list of its rows in
  insertion order together with the next value of the sequence behind
  \<^verbatim>\<open>id SERIAL PRIMARY KEY\<close> (it starts at 1 and ends at 2147483647).

  What the database server and the driver do with a statement is dictated by the
  environment, one outcome per statement: the statement executes, the driver returns a
  \<^verbatim>\<open>*pq.Error\<close> with a SQLSTATE code, it returns any other error (connection refused,
  context cancelled), or the statement executes and reading its result fails
  (\<^verbatim>\<open>RowsAffected\<close>, \<^verbatim>\<open>Scan\<close>, \<^verbatim>\<open>rows.Err\<close>). An exhausted script means that
  every further statement executes.
\<close>

datatype db_outcome = Executes | FailsPq string | FailsOther string | ResultFails string

datatype level = DebugLevel | InfoLevel | WarnLevel | ErrorLevel

text \<open>
  The statements of the repository, with the arguments its callers supply (the
  timestamp each statement takes from \<^verbatim>\<open>time.Now()\<close> is left out).
\<close>

datatype sql =
    Insert string
  | SelectByID int
  | Update bool int
  | SelectAll
  | SelectCounts

text \<open>
  Observable effects, each recorded with the instant at which it starts: a log entry
  (level and message; the structured fields are left out), a \<^verbatim>\<open>time.Sleep\<close> with its
  duration, a statement sent to the database, a message handed to the Kafka writer
  (topic, value).
\<close>

datatype event =
    Logged level string
  | Slept int
  | Statement sql
  | WriteMessages string bytes

record world =
  rows :: "Message list"
  next_id :: int
  db_script :: "db_outcome list"
  writer_script :: "err option list"
  clock :: nat
  cancel_at :: "nat option"
  trace :: "(nat \<times> event) list"

definition emit :: "event \<Rightarrow> world \<Rightarrow> world" where
  "emit ev w = w\<lparr>trace := trace w @ [(clock w, ev)]\<rparr>"

definition events :: "world \<Rightarrow> event list" where
  "events w = map snd (trace w)"

text \<open>The logger: \<^verbatim>\<open>Debug\<close>, \<^verbatim>\<open>Info\<close>, \<^verbatim>\<open>Warn\<close>, \<^verbatim>\<open>Error\<close> of package logger.\<close>

definition logger :: "level \<Rightarrow> string \<Rightarrow> world \<Rightarrow> world" where
  "logger l msg w = emit (Logged l msg) w"

text \<open>The outcome the environment dictates for the next statement.\<close>

definition next_outcome :: "world \<Rightarrow> db_outcome" where
  "next_outcome w = (case db_script w of [] \<Rightarrow> Executes | out # outs \<Rightarrow> out)"

definition db_next :: "world \<Rightarrow> db_outcome \<times> world" where
  "db_next w = (next_outcome w, w\<lparr>db_script := tl (db_script w)\<rparr>)"

text \<open>
  The context: the shutdown signal fires at instant \<open>cancel_at\<close> (never, when it is
  \<open>None\<close>); \<^verbatim>\<open>ctx.Done()\<close> is closed and \<^verbatim>\<open>ctx.Err()\<close> is not nil from then on.
\<close>

definition ctx_Done :: "world \<Rightarrow> bool" where
  "ctx_Done w = (case cancel_at w of None \<Rightarrow> False | Some t \<Rightarrow> t \<le> clock w)"

text \<open>
  \<^verbatim>\<open>time.Sleep(d)\<close> pauses for the whole duration, whatever happens to any context; a
  negative or zero duration returns at once.
\<close>

definition time_Sleep :: "int \<Rightarrow> world \<Rightarrow> world" where
  "time_Sleep d w = (emit (Slept d) w)\<lparr>clock := clock w + nat d\<rparr>"

section \<open>The store (package repository)\<close>

text \<open>The effect of the statements on the table.\<close>

definition insert_row :: "string \<Rightarrow> nat \<Rightarrow> world \<Rightarrow> Message \<times> world" where
  "insert_row content now w =
     (let message = \<lparr>ID = next_id w, Content = content, Processed = False,
                      CreatedAt = now, UpdatedAt = now\<rparr>
      in (message, w\<lparr>rows := rows w @ [message], next_id := next_id w + 1\<rparr>))"

definition update_rows :: "bool \<Rightarrow> nat \<Rightarrow> int \<Rightarrow> world \<Rightarrow> world" where
  "update_rows processed now i w =
     w\<lparr>rows := map (\<lambda>r. if ID r = i then r\<lparr>Processed := processed, UpdatedAt := now\<rparr> else r)
                   (rows w)\<rparr>"

definition rows_affected :: "int \<Rightarrow> world \<Rightarrow> nat" where
  "rows_affected i w = length (filter (\<lambda>r. ID r = i) (rows w))"

text \<open>\<^verbatim>\<open>CreateMessage\<close>: \<^verbatim>\<open>INSERT INTO messages ... RETURNING ...\<close>.\<close>

definition CreateMessage_error :: "err \<Rightarrow> err" where
  "CreateMessage_error e =
     (case e of
        PqError code \<Rightarrow>
          (if code = ''23505'' then
             New ErrorCodeDuplicateEntry ''CreateMessage'' (Errorf ''duplicate message entry'' e)
           else if code = ''23502'' then
             New ErrorCodeInvalidInput ''CreateMessage'' (Errorf ''missing required field'' e)
           else if code = ''23503'' then
             New ErrorCodeInvalidInput ''CreateMessage'' (Errorf ''foreign key violation'' e)
           else if code = ''25P02'' then
             New ErrorCodeTransactionFailed ''CreateMessage'' (Errorf ''transaction failed'' e)
           else New [] ''CreateMessage'' (Errorf ''failed to insert message'' e))
      | _ \<Rightarrow> New [] ''CreateMessage'' (Errorf ''failed to insert message'' e))"

definition CreateMessage :: "string \<Rightarrow> world \<Rightarrow> (err + Message) \<times> world" where
  "CreateMessage content w =
     (let now = clock w;
          (out, w1) = db_next (emit (Statement (Insert content)) w)
      in case out of
           FailsPq code \<Rightarrow> (Inl (CreateMessage_error (PqError code)), w1)
         | FailsOther msg \<Rightarrow> (Inl (CreateMessage_error (ErrNew msg)), w1)
         | ResultFails msg \<Rightarrow>
             (if next_id w1 > 2147483647 then (Inl (CreateMessage_error (PqError ''2200H'')), w1)
              else (Inl (CreateMessage_error (ErrNew msg)), snd (insert_row content now w1)))
         | Executes \<Rightarrow>
             (if next_id w1 > 2147483647 then (Inl (CreateMessage_error (PqError ''2200H'')), w1)
              else let (message, w2) = insert_row content now w1 in (Inr message, w2)))"




text \<open>\<^verbatim>\<open>UpdateMessageStatus\<close>: \<^verbatim>\<open>UPDATE messages SET processed = $1, updated_at = $2 WHERE id = $3\<close>.\<close>

definition UpdateMessageStatus_error :: "err \<Rightarrow> err" where
  "UpdateMessageStatus_error e =
     (case e of
        PqError code \<Rightarrow>
          (if code = ''22P02'' then
             New ErrorCodeInvalidInput ''UpdateMessageStatus''
               (Errorf ''invalid message ID format'' e)
           else if code = ''25P02'' then
             New ErrorCodeTransactionFailed ''UpdateMessageStatus''
               (Errorf ''transaction failed'' e)
           else New [] ''UpdateMessageStatus'' (Errorf ''failed to update message'' e))
      | _ \<Rightarrow> New [] ''UpdateMessageStatus'' (Errorf ''failed to update message'' e))"

definition UpdateMessageStatus :: "int \<Rightarrow> bool \<Rightarrow> world \<Rightarrow> err option \<times> world" where
  "UpdateMessageStatus i processed w =
     (let now = clock w;
          (out, w1) = db_next (emit (Statement (Update processed i)) w)
      in case out of
           FailsPq code \<Rightarrow> (Some (UpdateMessageStatus_error (PqError code)), w1)
         | FailsOther msg \<Rightarrow> (Some (UpdateMessageStatus_error (ErrNew msg)), w1)
         | ResultFails msg \<Rightarrow>
             (Some (New ErrorCodeSerializationFailed ''UpdateMessageStatus''
                      (Errorf ''failed to get rows affected'' (ErrNew msg))),
              update_rows processed now i w1)
         | Executes \<Rightarrow>
             (let w2 = update_rows processed now i w1;
                  rowsAffected = rows_affected i w1
              in if rowsAffected = 0 then
                   (Some (New ErrorCodeMessageNotFound ''UpdateMessageStatus'' ErrMessageNotFound),
                    w2)
                 else (None, w2)))"




text \<open>
  \<^verbatim>\<open>GetStatistics\<close>: one \<^verbatim>\<open>SELECT\<close> with \<^verbatim>\<open>COUNT(*)\<close>,
  \<^verbatim>\<open>COUNT(CASE WHEN processed = TRUE THEN 1 END)\<close> and
  \<^verbatim>\<open>COUNT(CASE WHEN processed = FALSE THEN 1 END)\<close>. A \<^verbatim>\<open>CASE\<close> without \<^verbatim>\<open>ELSE\<close>
  yields \<^verbatim>\<open>NULL\<close>, which \<^verbatim>\<open>COUNT\<close> does not count.
\<close>

definition case_when_processed :: "bool \<Rightarrow> Message \<Rightarrow> int option" where
  "case_when_processed b r = (if Processed r = b then Some 1 else None)"

definition sql_COUNT :: "'a option list \<Rightarrow> int" where
  "sql_COUNT xs = int (length (filter (\<lambda>x. x \<noteq> None) xs))"

definition GetStatistics_error :: "err \<Rightarrow> err" where
  "GetStatistics_error e =
     (case e of
        PqError code \<Rightarrow>
          (if code = ''25P02'' then
             New ErrorCodeTransactionFailed ''GetStatistics'' (Errorf ''transaction failed'' e)
           else New [] ''GetStatistics'' (Errorf ''failed to get statistics'' e))
      | _ \<Rightarrow> New [] ''GetStatistics'' (Errorf ''failed to get statistics'' e))"

definition GetStatistics :: "world \<Rightarrow> (err + Statistics) \<times> world" where
  "GetStatistics w =
     (let (out, w1) = db_next (emit (Statement SelectCounts) w)
      in case out of
           FailsPq code \<Rightarrow> (Inl (GetStatistics_error (PqError code)), w1)
         | FailsOther msg \<Rightarrow> (Inl (GetStatistics_error (ErrNew msg)), w1)
         | ResultFails msg \<Rightarrow> (Inl (GetStatistics_error (ErrNew msg)), w1)
         | Executes \<Rightarrow>
             (Inr \<lparr>TotalMessages = int (length (rows w1)),
                   ProcessedMessages = sql_COUNT (map (case_when_processed True) (rows w1)),
                   UnprocessedMessages = sql_COUNT (map (case_when_processed False) (rows w1))\<rparr>,
              w1))"


section \<open>Content validation (package validation)\<close>

text \<open>
  \<^verbatim>\<open>utf8.RuneCountInString\<close> of the standard library, on the bytes of the string: a
  well-formed sequence of two to four bytes counts once, every other byte counts by itself.
  \<open>utf8_first\<close> gives, for a leading byte, the length of its sequence (0 for a byte
  that cannot lead) and the range its second byte must lie in.
\<close>

definition utf8_first :: "nat \<Rightarrow> nat \<times> nat \<times> nat" where
  "utf8_first c =
     (if c < 0x80 then (1, 0, 0)
      else if c < 0xC2 then (0, 0, 0)
      else if c < 0xE0 then (2, 0x80, 0xBF)
      else if c = 0xE0 then (3, 0xA0, 0xBF)
      else if c < 0xED then (3, 0x80, 0xBF)
      else if c = 0xED then (3, 0x80, 0x9F)
      else if c < 0xF0 then (3, 0x80, 0xBF)
      else if c = 0xF0 then (4, 0x90, 0xBF)
      else if c < 0xF4 then (4, 0x80, 0xBF)
      else if c = 0xF4 then (4, 0x80, 0x8F)
      else (0, 0, 0))"

definition utf8_between :: "char \<Rightarrow> nat \<Rightarrow> nat \<Rightarrow> bool" where
  "utf8_between c lo hi = (lo \<le> (of_char c :: nat) \<and> (of_char c :: nat) \<le> hi)"

definition rune_width :: "char \<Rightarrow> string \<Rightarrow> nat" where
  "rune_width c s =
     (case utf8_first (of_char c) of (n, lo, hi) \<Rightarrow>
        if n \<le> 1 then 1
        else if n > Suc (length s) then 1
        else if \<not> utf8_between (s ! 0) lo hi then 1
        else if n = 2 then 2
        else if \<not> utf8_between (s ! 1) 0x80 0xBF then 1
        else if n = 3 then 3
        else if \<not> utf8_between (s ! 2) 0x80 0xBF then 1
        else 4)"

fun utf8_RuneCountInString :: "string \<Rightarrow> nat" where
  "utf8_RuneCountInString [] = 0"
| "utf8_RuneCountInString (c # s) = Suc (utf8_RuneCountInString (drop (rune_width c s - 1) s))"

text \<open>\<^verbatim>\<open>validation.Error{Code, Message}\<close>.\<close>

datatype validation_Error = validation_Error string string

abbreviation ValidationErrorCodeEmptyContent :: string where
  "ValidationErrorCodeEmptyContent \<equiv> ''EMPTY_CONTENT''"

abbreviation ValidationErrorCodeContentTooLong :: string where
  "ValidationErrorCodeContentTooLong \<equiv> ''CONTENT_TOO_LONG''"

abbreviation ValidationErrorCodeInvalidCharacters :: string where
  "ValidationErrorCodeInvalidCharacters \<equiv> ''INVALID_CHARACTERS''"

record MessageValidator =
  maxContentLength :: int

definition NewMessageValidator :: "int \<Rightarrow> MessageValidator" where
  "NewMessageValidator n = \<lparr>maxContentLength = n\<rparr>"

text \<open>\<^verbatim>\<open>regexp.MatchString(`[<>]`, content)\<close>: some byte of the content is \<open><\<close> or \<open>>\<close>.\<close>

definition regexp_MatchString_angle :: "string \<Rightarrow> bool" where
  "regexp_MatchString_angle content = list_ex (\<lambda>c. c = CHR ''<'' \<or> c = CHR ''>'') content"

definition ValidateMessageContent :: "MessageValidator \<Rightarrow> string \<Rightarrow> validation_Error option" where
  "ValidateMessageContent v content =
     (if content = [] then
        Some (validation_Error ValidationErrorCodeEmptyContent ''message content cannot be empty'')
      else if int (utf8_RuneCountInString content) > maxContentLength v then
        Some (validation_Error ValidationErrorCodeContentTooLong ''message content too long'')
      else if regexp_MatchString_angle content then
        Some (validation_Error ValidationErrorCodeInvalidCharacters
                ''message content contains invalid characters'')
      else None)"

section \<open>The broker client (package kafka)\<close>

text \<open>
  The Kafka writer behind \<^verbatim>\<open>ProducerImpl\<close>: the environment dictates the result of each
  \<^verbatim>\<open>WriteMessages\<close>; an exhausted script means that every further write succeeds.
\<close>

definition writer_next :: "world \<Rightarrow> err option \<times> world" where
  "writer_next w =
     (case writer_script w of [] \<Rightarrow> None | r # rs \<Rightarrow> r,
      w\<lparr>writer_script := tl (writer_script w)\<rparr>)"

definition SendMessage :: "string \<Rightarrow> bytes \<Rightarrow> world \<Rightarrow> err option \<times> world" where
  "SendMessage topic message w =
     (case writer_next (emit (WriteMessages topic message) w) of
        (Some e, w1) \<Rightarrow> (Some (Errorf ''failed to write message to Kafka'' e), w1)
      | (None, w1) \<Rightarrow> (None, w1))"

text \<open>
  The Kafka reader behind \<^verbatim>\<open>ConsumerImpl\<close>: what its next \<^verbatim>\<open>ReadMessage(ctx)\<close> does is
  an event of the environment, a message that arrives or a failure of the reader, after
  a time of blocking. The blocking call honours the context: when the shutdown signal
  fires before the event is due, the call returns the context's error at that instant.
\<close>

datatype read_event = Arrives nat bytes | ReaderFails nat err

abbreviation context_Canceled :: err where
  "context_Canceled \<equiv> ErrNew ''context canceled''"

fun due :: "read_event \<Rightarrow> nat" where
  "due (Arrives d b) = d"
| "due (ReaderFails d e) = d"

definition reader_returns :: "read_event \<Rightarrow> world \<Rightarrow> (err + bytes) \<times> world" where
  "reader_returns ev w =
     (case ev of
        Arrives d b \<Rightarrow> (Inr b, w\<lparr>clock := clock w + d\<rparr>)
      | ReaderFails d e \<Rightarrow>
          (Inl (Errorf ''failed to read message from Kafka'' e), w\<lparr>clock := clock w + d\<rparr>))"

definition ReadMessage :: "read_event \<Rightarrow> world \<Rightarrow> (err + bytes) \<times> world" where
  "ReadMessage ev w =
     (case cancel_at w of
        None \<Rightarrow> reader_returns ev w
      | Some c \<Rightarrow>
          if c \<le> clock w + due ev then
            (Inl (Errorf ''failed to read message from Kafka'' context_Canceled),
             w\<lparr>clock := max (clock w) c\<rparr>)
          else reader_returns ev w)"


section \<open>Encoding and decoding the queue envelope (encoding/json on \<^verbatim>\<open>model.Message\<close>)\<close>

text \<open>
  The text of a timestamp (RFC 3339) is the standard library's business:
  \<open>time_Format\<close> and \<open>time_Parse\<close> are parameters of everything that encodes or decodes.

  \<^verbatim>\<open>json.Marshal(message)\<close> writes the five tagged fields in the order of the struct.
\<close>

definition json_Marshal :: "(nat \<Rightarrow> string) \<Rightarrow> Message \<Rightarrow> err + bytes" where
  "json_Marshal time_Format message =
     Inr (JSON (JObject
       [(''id'', JInt (ID message)),
        (''content'', JString (Content message)),
        (''processed'', JBool (Processed message)),
        (''created_at'', JString (time_Format (CreatedAt message))),
        (''updated_at'', JString (time_Format (UpdatedAt message)))]))"

text \<open>
  \<^verbatim>\<open>json.Unmarshal(messageBytes, &message)\<close> into a fresh \<^verbatim>\<open>model.Message\<close>.
  A key selects the field whose tag it equals, or else equals up to the case of its
  letters (the decoder also reads the long s, bytes C5 BF, as \<open>s\<close> and the Kelvin
  sign, bytes E2 84 AA, as \<open>k\<close>); other keys are skipped. The members are stored in
  order, so a later duplicate wins. \<^verbatim>\<open>null\<close> leaves a field as it is. A value of the
  wrong type is remembered as the error to return and decoding goes on; an error of
  \<^verbatim>\<open>time.Time\<close>'s own \<^verbatim>\<open>UnmarshalJSON\<close> ends decoding at once.
\<close>

datatype field = F_id | F_content | F_processed | F_created_at | F_updated_at

definition ascii_lower :: "char \<Rightarrow> char" where
  "ascii_lower c =
     (let n = (of_char c :: nat) in if 65 \<le> n \<and> n \<le> 90 then char_of (n + 32) else c)"

fun fold_key :: "string \<Rightarrow> string" where
  "fold_key [] = []"
| "fold_key (c # cs) =
     (if (of_char c :: nat) = 0xC5 \<and> map of_char (take 1 cs) = [0xBF :: nat] then
        CHR ''s'' # fold_key (drop 1 cs)
      else if (of_char c :: nat) = 0xE2 \<and> map of_char (take 2 cs) = [0x84, 0xAA :: nat] then
        CHR ''k'' # fold_key (drop 2 cs)
      else ascii_lower c # fold_key cs)"

definition field_of_key :: "string \<Rightarrow> field option" where
  "field_of_key k =
     (let n = fold_key k in
      if n = ''id'' then Some F_id
      else if n = ''content'' then Some F_content
      else if n = ''processed'' then Some F_processed
      else if n = ''created_at'' then Some F_created_at
      else if n = ''updated_at'' then Some F_updated_at
      else None)"

datatype stored = Stored Message | TypeError err | Aborted err

definition json_time :: "(string \<Rightarrow> nat option) \<Rightarrow> json \<Rightarrow> err + nat option" where
  "json_time time_Parse v =
     (case v of
        JNull \<Rightarrow> Inr None
      | JString s \<Rightarrow>
          (case time_Parse s of
             Some t \<Rightarrow> Inr (Some t)
           | None \<Rightarrow> Inl (ErrNew ''parsing time: cannot parse''))
      | _ \<Rightarrow> Inl (ErrNew ''Time.UnmarshalJSON: input is not a JSON string''))"

definition store_field ::
  "(string \<Rightarrow> nat option) \<Rightarrow> field \<Rightarrow> json \<Rightarrow> Message \<Rightarrow> stored" where
  "store_field time_Parse f v m =
     (case f of
        F_id \<Rightarrow>
          (case v of
             JNull \<Rightarrow> Stored m
           | JInt n \<Rightarrow>
               if - (2 ^ 63) \<le> n \<and> n < 2 ^ 63 then Stored (m\<lparr>ID := n\<rparr>)
               else TypeError (ErrNew ''json: cannot unmarshal number into Go struct field Message.id of type int64'')
           | _ \<Rightarrow> TypeError (ErrNew ''json: cannot unmarshal into Go struct field Message.id of type int64''))
      | F_content \<Rightarrow>
          (case v of
             JNull \<Rightarrow> Stored m
           | JString s \<Rightarrow> Stored (m\<lparr>Content := s\<rparr>)
           | _ \<Rightarrow> TypeError (ErrNew ''json: cannot unmarshal into Go struct field Message.content of type string''))
      | F_processed \<Rightarrow>
          (case v of
             JNull \<Rightarrow> Stored m
           | JBool b \<Rightarrow> Stored (m\<lparr>Processed := b\<rparr>)
           | _ \<Rightarrow> TypeError (ErrNew ''json: cannot unmarshal into Go struct field Message.processed of type bool''))
      | F_created_at \<Rightarrow>
          (case json_time time_Parse v of
             Inl e \<Rightarrow> Aborted e
           | Inr None \<Rightarrow> Stored m
           | Inr (Some t) \<Rightarrow> Stored (m\<lparr>CreatedAt := t\<rparr>))
      | F_updated_at \<Rightarrow>
          (case json_time time_Parse v of
             Inl e \<Rightarrow> Aborted e
           | Inr None \<Rightarrow> Stored m
           | Inr (Some t) \<Rightarrow> Stored (m\<lparr>UpdatedAt := t\<rparr>)))"

fun json_object ::
  "(string \<Rightarrow> nat option) \<Rightarrow> (string \<times> json) list \<Rightarrow> Message \<Rightarrow> err option \<Rightarrow> err + Message"
where
  "json_object time_Parse [] m saved = (case saved of None \<Rightarrow> Inr m | Some e \<Rightarrow> Inl e)"
| "json_object time_Parse ((k, v) # kvs) m saved =
     (case field_of_key k of
        None \<Rightarrow> json_object time_Parse kvs m saved
      | Some f \<Rightarrow>
          (case store_field time_Parse f v m of
             Stored m' \<Rightarrow> json_object time_Parse kvs m' saved
           | TypeError e \<Rightarrow>
               json_object time_Parse kvs m (case saved of None \<Rightarrow> Some e | Some e0 \<Rightarrow> Some e0)
           | Aborted e \<Rightarrow> Inl e))"

text \<open>The zero value of \<^verbatim>\<open>model.Message\<close> (\<^verbatim>\<open>var message model.Message\<close>).\<close>

definition zero_Message :: Message where
  "zero_Message = \<lparr>ID = 0, Content = [], Processed = False, CreatedAt = 0, UpdatedAt = 0\<rparr>"

definition json_Unmarshal :: "(string \<Rightarrow> nat option) \<Rightarrow> bytes \<Rightarrow> err + Message" where
  "json_Unmarshal time_Parse messageBytes =
     (case messageBytes of
        NotJSON s \<Rightarrow> Inl (ErrNew ''invalid character'')
      | JSON JNull \<Rightarrow> Inr zero_Message
      | JSON (JObject kvs) \<Rightarrow> json_object time_Parse kvs zero_Message None
      | JSON _ \<Rightarrow> Inl (ErrNew ''json: cannot unmarshal into Go value of type model.Message''))"

section \<open>The service (package service)\<close>

text \<open>\<^verbatim>\<open>handleError\<close>: logs by error code and wraps the error with \<^verbatim>\<open>%w\<close>.\<close>

definition handleError :: "string \<Rightarrow> err \<Rightarrow> int \<Rightarrow> world \<Rightarrow> err \<times> world" where
  "handleError op e i w =
     (case errors_As e of
        Some repoErr \<Rightarrow>
          (if ErrorCode repoErr = ErrorCodeMessageNotFound then
             (Errorf ''message not found'' e,
              logger WarnLevel (''Message not found during '' @ op) w)
           else if ErrorCode repoErr = ErrorCodeInvalidInput then
             (Errorf ''invalid input'' e, logger WarnLevel (''Invalid input during '' @ op) w)
           else if ErrorCode repoErr = ErrorCodeDatabaseConnection then
             (Errorf ''database unavailable'' e,
              logger ErrorLevel (''Database connection error during '' @ op) w)
           else if ErrorCode repoErr = ErrorCodeDuplicateEntry then
             (Errorf ''duplicate entry'' e, logger WarnLevel (''Duplicate entry during '' @ op) w)
           else (Errorf ''operation failed'' e, logger ErrorLevel (''Failed during '' @ op) w))
      | None \<Rightarrow> (Errorf ''operation failed'' e, logger ErrorLevel (''Failed during '' @ op) w))"

text \<open>
  \<^verbatim>\<open>messageService.CreateMessage\<close> (submit). Go's \<^verbatim>\<open>(0, err)\<close> is \<open>Inl err\<close>,
  \<^verbatim>\<open>(message.ID, nil)\<close> is \<open>Inr (ID message)\<close>.
\<close>

definition service_CreateMessage ::
  "(nat \<Rightarrow> string) \<Rightarrow> string \<Rightarrow> string \<Rightarrow> world \<Rightarrow> (err + int) \<times> world" where
  "service_CreateMessage time_Format topic content w =
     (case CreateMessage content (logger InfoLevel ''Creating message in repository'' w) of
        (Inl e, w1) \<Rightarrow>
          (case handleError ''message creation'' e 0 w1 of (e', w2) \<Rightarrow> (Inl e', w2))
      | (Inr message, w1) \<Rightarrow>
          (let w2 = logger InfoLevel ''Successfully created message in repository'' w1 in
           case json_Marshal time_Format message of
             Inl e \<Rightarrow>
               (Inl (Errorf ''failed to marshal message'' e),
                logger ErrorLevel ''Failed to marshal message'' w2)
           | Inr messageBytes \<Rightarrow>
               (case SendMessage topic messageBytes
                       (logger DebugLevel ''Sending message to Kafka'' w2) of
                  (Some e, w3) \<Rightarrow>
                    (Inl (Errorf ''failed to send message to Kafka'' e),
                     logger ErrorLevel ''Failed to send message to Kafka'' w3)
                | (None, w3) \<Rightarrow>
                    (Inr (ID message),
                     logger InfoLevel ''Successfully sent message to Kafka'' w3))))"

text \<open>\<^verbatim>\<open>messageService.ProcessMessage\<close> (markProcessed).\<close>

definition ProcessMessage :: "int \<Rightarrow> world \<Rightarrow> err option \<times> world" where
  "ProcessMessage i w =
     (case UpdateMessageStatus i True (logger InfoLevel ''Processing message'' w) of
        (Some e, w1) \<Rightarrow>
          (case handleError ''message processing'' e i w1 of (e', w2) \<Rightarrow> (Some e', w2))
      | (None, w1) \<Rightarrow> (None, logger InfoLevel ''Successfully processed message'' w1))"



section \<open>The request boundary (package handler)\<close>

record MessageHandler =
  validator :: MessageValidator

definition NewMessageHandler :: MessageHandler where
  "NewMessageHandler = \<lparr>validator = NewMessageValidator 1000\<rparr>"

text \<open>A response: the HTTP status and the JSON body.\<close>

definition error_body :: "string \<Rightarrow> json" where
  "error_body msg = JObject [(''error'', JString msg)]"

definition handleServiceError :: "err \<Rightarrow> world \<Rightarrow> (nat \<times> string) \<times> world" where
  "handleServiceError e w =
     (case errors_As e of
        Some repoErr \<Rightarrow>
          (if ErrorCode repoErr = ErrorCodeInvalidInput then
             ((400, ''Invalid input''), logger WarnLevel ''Invalid input'' w)
           else if ErrorCode repoErr = ErrorCodeDuplicateEntry then
             ((400, ''Duplicate entry''), logger WarnLevel ''Duplicate entry'' w)
           else if ErrorCode repoErr = ErrorCodeMessageNotFound then
             ((404, ''Message not found''), logger WarnLevel ''Message not found'' w)
           else if ErrorCode repoErr = ErrorCodeDatabaseConnection then
             ((503, ''Service temporarily unavailable''),
              logger ErrorLevel ''Database connection error'' w)
           else ((500, ''Internal server error''), logger ErrorLevel ''Service error'' w))
      | None \<Rightarrow>
          ((500, ''Internal server error''), logger ErrorLevel ''Unexpected service error'' w))"

text \<open>
  \<^verbatim>\<open>CreateMessageHandler\<close>. Its input is what \<^verbatim>\<open>c.ShouldBindJSON(&req)\<close> made of the
  request body: an error, or the request's \<^verbatim>\<open>Content\<close>.
\<close>

definition CreateMessageHandler ::
  "MessageHandler \<Rightarrow> (nat \<Rightarrow> string) \<Rightarrow> string \<Rightarrow> err + string \<Rightarrow> world
     \<Rightarrow> (nat \<times> json) \<times> world" where
  "CreateMessageHandler h time_Format topic req w =
     (case req of
        Inl e \<Rightarrow>
          ((400, error_body ''Invalid JSON''),
           logger WarnLevel ''Invalid JSON in create message request'' w)
      | Inr content \<Rightarrow>
          (case ValidateMessageContent (validator h) content of
             Some (validation_Error code msg) \<Rightarrow>
               (if code = ValidationErrorCodeEmptyContent then
                  ((400, error_body ''Message content cannot be empty''),
                   logger WarnLevel ''Empty message content'' w)
                else if code = ValidationErrorCodeContentTooLong then
                  ((400, error_body ''Message content too long (max 1000 characters)''),
                   logger WarnLevel ''Message content too long'' w)
                else if code = ValidationErrorCodeInvalidCharacters then
                  ((400, error_body ''Message content contains invalid characters''),
                   logger WarnLevel ''Message content contains invalid characters'' w)
                else
                  ((400, error_body ''Invalid message content''),
                   logger WarnLevel ''Validation error'' w))
           | None \<Rightarrow>
               (case service_CreateMessage time_Format topic content
                       (logger InfoLevel ''Creating new message'' w) of
                  (Inl e, w1) \<Rightarrow>
                    (case handleServiceError e w1 of
                       ((status, msg), w2) \<Rightarrow> ((status, error_body msg), w2))
                | (Inr i, w1) \<Rightarrow>
                    ((200, JObject [(''id'', JInt i)]),
                     logger InfoLevel ''Successfully created message'' w1))))"

section \<open>The consume loop (\<^verbatim>\<open>processKafkaMessages\<close> of cmd/server/main.go)\<close>

text \<open>
  The \<^verbatim>\<open>switch\<close> on the error code inside the retry loop: whether the message is to
  be skipped (\<^verbatim>\<open>shouldSkipMessage\<close>), with the warning it logs.
\<close>

definition skip_switch :: "err \<Rightarrow> world \<Rightarrow> bool \<times> world" where
  "skip_switch processErr w =
     (case errors_As processErr of
        Some repoErr \<Rightarrow>
          (if ErrorCode repoErr = ErrorCodeMessageNotFound then
             (True, logger WarnLevel ''Message not found for processing'' w)
           else if ErrorCode repoErr = ErrorCodeInvalidInput then
             (True, logger WarnLevel ''Invalid message ID format'' w)
           else (False, w))
      | None \<Rightarrow> (False, w))"

text \<open>
  The retry loop \<^verbatim>\<open>for attempt := 0; attempt <= maxRetries; attempt++\<close>, from the value
  of \<^verbatim>\<open>attempt\<close> and of \<^verbatim>\<open>processErr\<close> at the loop's test. It returns
  \<^verbatim>\<open>shouldSkipMessage\<close> and \<^verbatim>\<open>processErr\<close> as they are after the loop. Go's \<^verbatim>\<open>int\<close>
  has 64 bits; the counter is an integer here, which is the same as long as
  \<open>maxRetries < 2 ^ 63 - 1\<close> (the increment never overflows).
\<close>

function processKafkaMessages_retry ::
  "int \<Rightarrow> int \<Rightarrow> int \<Rightarrow> int \<Rightarrow> err option \<Rightarrow> world \<Rightarrow> bool \<times> err option \<times> world" where
  "processKafkaMessages_retry maxRetries retryDelay i attempt processErr w =
     (if attempt \<le> maxRetries then
        (case ProcessMessage i w of
           (None, w1) \<Rightarrow> (False, None, w1)
         | (Some e, w1) \<Rightarrow>
             (case skip_switch e w1 of
                (True, w2) \<Rightarrow> (True, None, w2)
              | (False, w2) \<Rightarrow>
                  processKafkaMessages_retry maxRetries retryDelay i (attempt + 1) (Some e)
                    (if attempt < maxRetries then
                       time_Sleep retryDelay
                         (logger WarnLevel ''Error processing message, retrying'' w2)
                     else w2)))
      else (False, processErr, w))"
  by pat_completeness auto
termination
  by (relation "measure (\<lambda>(maxRetries, retryDelay, i, attempt, processErr, w).
                   nat (maxRetries + 1 - attempt))") auto

declare processKafkaMessages_retry.simps [simp del]

text \<open>One decoded message: the retry loop and what is logged after it.\<close>

definition processKafkaMessages_message :: "int \<Rightarrow> int \<Rightarrow> Message \<Rightarrow> world \<Rightarrow> world" where
  "processKafkaMessages_message maxRetries retryDelay message w =
     (case processKafkaMessages_retry maxRetries retryDelay (ID message) 0 None
             (logger InfoLevel ''Processing Kafka message'' w) of
        (shouldSkipMessage, processErr, w1) \<Rightarrow>
          if shouldSkipMessage then
            logger InfoLevel ''Successfully processed Kafka message'' w1
          else if processErr \<noteq> None then
            logger ErrorLevel ''Failed to process message after retries'' w1
          else logger InfoLevel ''Successfully processed Kafka message'' w1)"

text \<open>
  The loop \<^verbatim>\<open>for { select { case <-ctx.Done(): return; default: ... } }\<close> over the
  events of the reader. With no event left the read blocks until the shutdown signal;
  without a signal it blocks for ever and the loop does not return (\<open>None\<close>).
\<close>

definition shutting_down :: "world \<Rightarrow> world" where
  "shutting_down w = logger InfoLevel ''Kafka message processor shutting down'' w"

fun processKafkaMessages ::
  "(string \<Rightarrow> nat option) \<Rightarrow> int \<Rightarrow> int \<Rightarrow> read_event list \<Rightarrow> world \<Rightarrow> world option" where
  "processKafkaMessages time_Parse maxRetries retryDelay [] w =
     (if ctx_Done w then Some (shutting_down w)
      else case cancel_at w of
        None \<Rightarrow> None
      | Some c \<Rightarrow> Some (shutting_down (w\<lparr>clock := c\<rparr>)))"
| "processKafkaMessages time_Parse maxRetries retryDelay (ev # evs) w =
     (if ctx_Done w then Some (shutting_down w)
      else case ReadMessage ev w of
        (Inl e, w1) \<Rightarrow>
          if ctx_Done w1 then Some (shutting_down w1)
          else processKafkaMessages time_Parse maxRetries retryDelay evs
                 (logger ErrorLevel ''Error reading message from Kafka'' w1)
      | (Inr messageBytes, w1) \<Rightarrow>
          (case json_Unmarshal time_Parse messageBytes of
             Inl e \<Rightarrow>
               processKafkaMessages time_Parse maxRetries retryDelay evs
                 (logger ErrorLevel ''Error unmarshaling message'' w1)
           | Inr message \<Rightarrow>
               processKafkaMessages time_Parse maxRetries retryDelay evs
                 (processKafkaMessages_message maxRetries retryDelay message w1)))"


section \<open>Observations used in the statements\<close>

text \<open>
  What a run leaves in the trace: the statements sent to the database, the sleeps, the
  log entries, and the effects other than logging in the order they happened.
\<close>

fun statement_of :: "event \<Rightarrow> sql list" where
  "statement_of (Statement s) = [s]"
| "statement_of _ = []"

fun sleep_of :: "event \<Rightarrow> int list" where
  "sleep_of (Slept d) = [d]"
| "sleep_of _ = []"

fun log_of :: "event \<Rightarrow> (level \<times> string) list" where
  "log_of (Logged l m) = [(l, m)]"
| "log_of _ = []"

fun effect_of :: "event \<Rightarrow> event list" where
  "effect_of (Logged l m) = []"
| "effect_of ev = [ev]"

definition calls :: "world \<Rightarrow> sql list" where
  "calls w = concat (map statement_of (events w))"

definition sleeps :: "world \<Rightarrow> int list" where
  "sleeps w = concat (map sleep_of (events w))"

definition logs :: "world \<Rightarrow> (level \<times> string) list" where
  "logs w = concat (map log_of (events w))"

definition effects :: "world \<Rightarrow> event list" where
  "effects w = concat (map effect_of (events w))"

text \<open>The record with a given id, if the table has one.\<close>

definition record_of :: "int \<Rightarrow> world \<Rightarrow> Message option" where
  "record_of i w = find (\<lambda>r. ID r = i) (rows w)"

definition ids :: "world \<Rightarrow> int list" where
  "ids w = map ID (rows w)"

text \<open>
  The store's states: a sequence of creates and processed-status updates, run from a
  given state. A new store has an empty table and a sequence that starts at 1.
\<close>

datatype store_op = Create string | SetProcessed int bool

fun store_step :: "store_op \<Rightarrow> world \<Rightarrow> world" where
  "store_step (Create content) w = snd (CreateMessage content w)"
| "store_step (SetProcessed i b) w = snd (UpdateMessageStatus i b w)"

definition run_store :: "store_op list \<Rightarrow> world \<Rightarrow> world" where
  "run_store ops w = fold store_step ops w"

definition new_store :: "world \<Rightarrow> bool" where
  "new_store w = (rows w = [] \<and> next_id w = 1)"

text \<open>What \<^verbatim>\<open>handleError\<close> logs for an error: the level and the message.\<close>

definition handleError_log :: "string \<Rightarrow> err \<Rightarrow> level \<times> string" where
  "handleError_log op e =
     (case errors_As e of
        None \<Rightarrow> (ErrorLevel, ''Failed during '' @ op)
      | Some r \<Rightarrow>
          if ErrorCode r = ErrorCodeMessageNotFound then (WarnLevel, ''Message not found during '' @ op)
          else if ErrorCode r = ErrorCodeInvalidInput then (WarnLevel, ''Invalid input during '' @ op)
          else if ErrorCode r = ErrorCodeDatabaseConnection then
            (ErrorLevel, ''Database connection error during '' @ op)
          else if ErrorCode r = ErrorCodeDuplicateEntry then (WarnLevel, ''Duplicate entry during '' @ op)
          else (ErrorLevel, ''Failed during '' @ op))"

text \<open>The shutdown signal does not fire up to the instant \<open>t\<close>.\<close>

definition signal_after :: "nat \<Rightarrow> world \<Rightarrow> bool" where
  "signal_after t w = (case cancel_at w of None \<Rightarrow> True | Some c \<Rightarrow> t < c)"

text \<open>
  The state in which the retry loop starts its next iteration after an attempt that
  failed and is retried.
\<close>

definition after_failure :: "int \<Rightarrow> int \<Rightarrow> int \<Rightarrow> int \<Rightarrow> world \<Rightarrow> world" where
  "after_failure maxRetries retryDelay i attempt w =
     (if attempt < maxRetries then
        time_Sleep retryDelay
          (logger WarnLevel ''Error processing message, retrying'' (snd (ProcessMessage i w)))
      else snd (ProcessMessage i w))"

text \<open>
  An error the retry loop retries: no \<^verbatim>\<open>RepositoryError\<close> in its chain, or one whose
  code is neither \<^verbatim>\<open>MESSAGE_NOT_FOUND\<close> nor \<^verbatim>\<open>INVALID_INPUT\<close> (the kinds Unavailable
  and Unknown and every other or unclassified error).
\<close>

definition retryable_error :: "err \<Rightarrow> bool" where
  "retryable_error e =
     (case errors_As e of
        None \<Rightarrow> True
      | Some r \<Rightarrow> ErrorCode r \<noteq> ErrorCodeMessageNotFound \<and> ErrorCode r \<noteq> ErrorCodeInvalidInput)"

text \<open>
  "\<^verbatim>\<open>setProcessed\<close> fails with a retryable error exactly \<open>k\<close> times and then succeeds":
  what \<^verbatim>\<open>UpdateMessageStatus(id, true)\<close> returns when it is called \<open>k + 1\<close> times in a
  row from the state \<open>w\<close>.
\<close>

fun fails_then_succeeds :: "nat \<Rightarrow> int \<Rightarrow> world \<Rightarrow> bool" where
  "fails_then_succeeds 0 i w = (fst (UpdateMessageStatus i True w) = None)"
| "fails_then_succeeds (Suc k) i w =
     (case UpdateMessageStatus i True w of
        (None, w') \<Rightarrow> False
      | (Some e, w') \<Rightarrow> retryable_error e \<and> fails_then_succeeds k i w')"

text \<open>The ids of the table are positive, and so is the next value of the sequence.\<close>

definition ids_positive :: "world \<Rightarrow> bool" where
  "ids_positive w = (1 \<le> next_id w \<and> (\<forall>i \<in> set (ids w). 1 \<le> i))"




section \<open>Example states\<close>

text \<open>A new store, and a store that holds one unprocessed record.\<close>

definition empty_world :: world where
  "empty_world = \<lparr>rows = [], next_id = 1, db_script = [], writer_script = [], clock = 0,
                   cancel_at = None, trace = []\<rparr>"

definition hello_world :: world where
  "hello_world = \<lparr>rows = [\<lparr>ID = 1, Content = ''Hello'', Processed = False,
                            CreatedAt = 3, UpdatedAt = 3\<rparr>],
                   next_id = 2, db_script = [], writer_script = [], clock = 5,
                   cancel_at = None, trace = []\<rparr>"


text \<open>
  The same store during an outage of the database: the next two statements fail, with a
  refused connection and with a failed transaction.
\<close>

definition outage_world :: world where
  "outage_world = hello_world\<lparr>db_script := [FailsOther ''connection refused'', FailsPq ''25P02'']\<rparr>"

text \<open>The envelope \<open>{"id": 1}\<close> and the message it decodes to.\<close>

definition id_1_payload :: bytes where
  "id_1_payload = JSON (JObject [(''id'', JInt 1)])"

definition hello_message :: Message where
  "hello_message = \<lparr>ID = 1, Content = [], Processed = False, CreatedAt = 0, UpdatedAt = 0\<rparr>"





section \<open>Properties\<close>

subsection \<open>Primitive steps\<close>

lemma emit_fields [simp]:
  "rows (emit ev w) = rows w" "next_id (emit ev w) = next_id w"
  "db_script (emit ev w) = db_script w" "writer_script (emit ev w) = writer_script w"
  "clock (emit ev w) = clock w" "cancel_at (emit ev w) = cancel_at w"
  "trace (emit ev w) = trace w @ [(clock w, ev)]"
  by (simp_all add: emit_def)

lemma events_emit [simp]: "events (emit ev w) = events w @ [ev]"
  by (simp add: events_def)

lemma logger_fields [simp]:
  "rows (logger l m w) = rows w" "next_id (logger l m w) = next_id w"
  "db_script (logger l m w) = db_script w" "writer_script (logger l m w) = writer_script w"
  "clock (logger l m w) = clock w" "cancel_at (logger l m w) = cancel_at w"
  "events (logger l m w) = events w @ [Logged l m]"
  by (simp_all add: logger_def)

lemma next_outcome_emit [simp]:
  "next_outcome (emit ev w) = next_outcome w" "next_outcome (logger l m w) = next_outcome w"
  by (simp_all add: next_outcome_def)

lemma time_Sleep_fields [simp]:
  "rows (time_Sleep d w) = rows w" "next_id (time_Sleep d w) = next_id w"
  "db_script (time_Sleep d w) = db_script w" "writer_script (time_Sleep d w) = writer_script w"
  "clock (time_Sleep d w) = clock w + nat d" "cancel_at (time_Sleep d w) = cancel_at w"
  "events (time_Sleep d w) = events w @ [Slept d]"
  by (simp_all add: time_Sleep_def events_def)

lemma calls_simps [simp]:
  "calls (emit (Statement s) w) = calls w @ [s]"
  "calls (emit (Logged l m) w) = calls w"
  "calls (logger l m w) = calls w"
  "calls (time_Sleep d w) = calls w"
  by (simp_all add: calls_def)

lemma sleeps_simps [simp]:
  "sleeps (emit (Statement s) w) = sleeps w"
  "sleeps (logger l m w) = sleeps w"
  "sleeps (time_Sleep d w) = sleeps w @ [d]"
  by (simp_all add: sleeps_def)

lemma logs_simps [simp]:
  "logs (emit (Statement s) w) = logs w"
  "logs (logger l m w) = logs w @ [(l, m)]"
  "logs (time_Sleep d w) = logs w"
  by (simp_all add: logs_def)

lemma effects_simps [simp]:
  "effects (emit (Statement s) w) = effects w @ [Statement s]"
  "effects (logger l m w) = effects w"
  "effects (time_Sleep d w) = effects w @ [Slept d]"
  by (simp_all add: effects_def)

lemma observations_script [simp]:
  "events (w\<lparr>db_script := x\<rparr>) = events w" "calls (w\<lparr>db_script := x\<rparr>) = calls w"
  "sleeps (w\<lparr>db_script := x\<rparr>) = sleeps w" "logs (w\<lparr>db_script := x\<rparr>) = logs w"
  "effects (w\<lparr>db_script := x\<rparr>) = effects w"
  by (simp_all add: events_def calls_def sleeps_def logs_def effects_def)

lemma update_rows_fields [simp]:
  "next_id (update_rows b t i w) = next_id w" "db_script (update_rows b t i w) = db_script w"
  "writer_script (update_rows b t i w) = writer_script w" "clock (update_rows b t i w) = clock w"
  "cancel_at (update_rows b t i w) = cancel_at w" "trace (update_rows b t i w) = trace w"
  "events (update_rows b t i w) = events w" "calls (update_rows b t i w) = calls w"
  "sleeps (update_rows b t i w) = sleeps w" "logs (update_rows b t i w) = logs w"
  "effects (update_rows b t i w) = effects w"
  by (simp_all add: update_rows_def events_def calls_def sleeps_def logs_def effects_def)

lemma ids_update_rows [simp]: "ids (update_rows b t i w) = ids w"
  by (simp add: ids_def update_rows_def comp_def if_distrib cong: if_cong)

lemma ids_simps [simp]:
  "ids (emit ev w) = ids w" "ids (logger l m w) = ids w" "ids (time_Sleep d w) = ids w"
  "ids (w\<lparr>db_script := x\<rparr>) = ids w"
  by (simp_all add: ids_def)

lemma rows_affected_ids: "rows_affected i w = length (filter (\<lambda>j. j = i) (ids w))"
  by (simp add: rows_affected_def ids_def filter_map comp_def)

lemma rows_affected_0: "rows_affected i w = 0 \<longleftrightarrow> i \<notin> set (ids w)"
  by (auto simp: rows_affected_ids filter_empty_conv)

subsection \<open>UpdateMessageStatus\<close>

lemma UpdateMessageStatus_frame [simp]:
  "calls (snd (UpdateMessageStatus i b w)) = calls w @ [Update b i]"
  "sleeps (snd (UpdateMessageStatus i b w)) = sleeps w"
  "logs (snd (UpdateMessageStatus i b w)) = logs w"
  "effects (snd (UpdateMessageStatus i b w)) = effects w @ [Statement (Update b i)]"
  "db_script (snd (UpdateMessageStatus i b w)) = tl (db_script w)"
  "clock (snd (UpdateMessageStatus i b w)) = clock w"
  "cancel_at (snd (UpdateMessageStatus i b w)) = cancel_at w"
  "next_id (snd (UpdateMessageStatus i b w)) = next_id w"
  "writer_script (snd (UpdateMessageStatus i b w)) = writer_script w"
  "ids (snd (UpdateMessageStatus i b w)) = ids w"
  by (simp_all add: UpdateMessageStatus_def db_next_def Let_def split: db_outcome.splits)

lemma fst_UpdateMessageStatus_Executes:
  "next_outcome w = Executes \<Longrightarrow>
   fst (UpdateMessageStatus i b w) =
     (if i \<in> set (ids w) then None
      else Some (RepositoryError ErrorCodeMessageNotFound ''UpdateMessageStatus'' ErrMessageNotFound))"
  by (simp add: UpdateMessageStatus_def db_next_def Let_def rows_affected_0 New_def)

lemma rows_UpdateMessageStatus_Executes:
  "next_outcome w = Executes \<Longrightarrow>
   rows (snd (UpdateMessageStatus i b w)) =
     map (\<lambda>r. if ID r = i then r\<lparr>Processed := b, UpdatedAt := clock w\<rparr> else r) (rows w)"
  by (simp add: UpdateMessageStatus_def db_next_def Let_def update_rows_def)

lemma next_outcome_available:
  "set (take (Suc n) (db_script w)) \<subseteq> {Executes} \<Longrightarrow> next_outcome w = Executes"
  by (cases "db_script w") (auto simp: next_outcome_def)

lemma available_tl:
  "set (take (Suc n) xs) \<subseteq> {Executes} \<Longrightarrow> set (take n (tl xs)) \<subseteq> {Executes}"
  by (cases xs) auto

lemma find_map_update:
  "find (\<lambda>r. ID r = i) (map (\<lambda>r. if ID r = i then r\<lparr>Processed := b, UpdatedAt := t\<rparr> else r) rs) =
   map_option (\<lambda>r. r\<lparr>Processed := b, UpdatedAt := t\<rparr>) (find (\<lambda>r. ID r = i) rs)"
  by (induction rs) auto

lemma record_of_UpdateMessageStatus:
  "next_outcome w = Executes \<Longrightarrow>
   record_of i (snd (UpdateMessageStatus i b w)) =
     map_option (\<lambda>r. r\<lparr>Processed := b, UpdatedAt := clock w\<rparr>) (record_of i w)"
  by (simp add: record_of_def rows_UpdateMessageStatus_Executes find_map_update)

lemma find_ID: "i \<in> set (map ID rs) \<Longrightarrow> \<exists>r. find (\<lambda>r. ID r = i) rs = Some r \<and> ID r = i"
  by (induction rs) auto

lemma record_of_ids: "i \<in> set (ids w) \<Longrightarrow> \<exists>r. record_of i w = Some r \<and> ID r = i"
  unfolding record_of_def ids_def by (rule find_ID)

subsection \<open>Logging does not change what the store does\<close>

lemma UpdateMessageStatus_logger:
  "fst (UpdateMessageStatus i b (logger l m w)) = fst (UpdateMessageStatus i b w)"
  "rows (snd (UpdateMessageStatus i b (logger l m w))) = rows (snd (UpdateMessageStatus i b w))"
  by (simp_all add: UpdateMessageStatus_def db_next_def Let_def rows_affected_def update_rows_def
        split: db_outcome.splits)

subsection \<open>handleError\<close>

lemma handleError_fields [simp]:
  "rows (snd (handleError op e i w)) = rows w"
  "next_id (snd (handleError op e i w)) = next_id w"
  "db_script (snd (handleError op e i w)) = db_script w"
  "writer_script (snd (handleError op e i w)) = writer_script w"
  "clock (snd (handleError op e i w)) = clock w"
  "cancel_at (snd (handleError op e i w)) = cancel_at w"
  "calls (snd (handleError op e i w)) = calls w"
  "sleeps (snd (handleError op e i w)) = sleeps w"
  "effects (snd (handleError op e i w)) = effects w"
  "ids (snd (handleError op e i w)) = ids w"
  by (simp_all add: handleError_def split: option.splits)

lemma errors_As_handleError [simp]:
  "errors_As (fst (handleError op e i w)) = errors_As e"
  by (simp add: handleError_def split: option.splits)

lemma logs_handleError:
  "logs (snd (handleError op e i w)) = logs w @
     [case errors_As e of
        None \<Rightarrow> (ErrorLevel, ''Failed during '' @ op)
      | Some r \<Rightarrow>
          if ErrorCode r = ErrorCodeMessageNotFound then (WarnLevel, ''Message not found during '' @ op)
          else if ErrorCode r = ErrorCodeInvalidInput then (WarnLevel, ''Invalid input during '' @ op)
          else if ErrorCode r = ErrorCodeDatabaseConnection then
            (ErrorLevel, ''Database connection error during '' @ op)
          else if ErrorCode r = ErrorCodeDuplicateEntry then (WarnLevel, ''Duplicate entry during '' @ op)
          else (ErrorLevel, ''Failed during '' @ op)]"
  by (simp add: handleError_def split: option.splits)

subsection \<open>ProcessMessage\<close>

lemma ProcessMessage_fields [simp]:
  "calls (snd (ProcessMessage i w)) = calls w @ [Update True i]"
  "sleeps (snd (ProcessMessage i w)) = sleeps w"
  "effects (snd (ProcessMessage i w)) = effects w @ [Statement (Update True i)]"
  "db_script (snd (ProcessMessage i w)) = tl (db_script w)"
  "clock (snd (ProcessMessage i w)) = clock w"
  "cancel_at (snd (ProcessMessage i w)) = cancel_at w"
  "next_id (snd (ProcessMessage i w)) = next_id w"
  "writer_script (snd (ProcessMessage i w)) = writer_script w"
  "ids (snd (ProcessMessage i w)) = ids w"
  by (simp_all add: ProcessMessage_def split_beta split: option.splits)

lemma fst_ProcessMessage_None:
  "fst (ProcessMessage i w) = None \<longleftrightarrow> fst (UpdateMessageStatus i True w) = None"
  using UpdateMessageStatus_logger(1)[of i True InfoLevel "''Processing message''" w]
  by (simp add: ProcessMessage_def split_beta split: option.splits)

lemma errors_As_ProcessMessage:
  "fst (UpdateMessageStatus i True w) = Some e \<Longrightarrow>
   \<exists>e'. fst (ProcessMessage i w) = Some e' \<and> errors_As e' = errors_As e"
  using UpdateMessageStatus_logger(1)[of i True InfoLevel "''Processing message''" w]
  by (simp add: ProcessMessage_def split_beta split: option.splits)

lemma rows_ProcessMessage:
  "rows (snd (ProcessMessage i w)) = rows (snd (UpdateMessageStatus i True w))"
  using UpdateMessageStatus_logger(2)[of i True InfoLevel "''Processing message''" w]
  by (simp add: ProcessMessage_def split_beta split: option.splits)

lemma record_of_rows: "rows w = rows w' \<Longrightarrow> record_of i w = record_of i w'"
  by (simp add: record_of_def)

lemma next_outcome_clock [simp]: "next_outcome (w\<lparr>clock := t\<rparr>) = next_outcome w"
  by (simp add: next_outcome_def)

lemma ids_clock [simp]: "ids (w\<lparr>clock := t\<rparr>) = ids w"
  by (simp add: ids_def)

lemma record_of_clock [simp]: "record_of i (w\<lparr>clock := t\<rparr>) = record_of i w"
  by (simp add: record_of_def)

lemma twice_UpdateMessageStatus:
  assumes "i \<in> set (ids w)" and "set (take 2 (db_script w)) \<subseteq> {Executes}"
  shows "fst (UpdateMessageStatus i b w) = None"
    and "fst (UpdateMessageStatus i b ((snd (UpdateMessageStatus i b w))\<lparr>clock := t\<rparr>)) = None"
    and "\<exists>r. record_of i (snd (UpdateMessageStatus i b w)) = Some r \<and> ID r = i \<and> Processed r = b"
    and "\<exists>r. record_of i (snd (UpdateMessageStatus i b ((snd (UpdateMessageStatus i b w))\<lparr>clock := t\<rparr>)))
               = Some r \<and> ID r = i \<and> Processed r = b \<and> UpdatedAt r = t"
proof -
  have two: "set (take (Suc 1) (db_script w)) \<subseteq> {Executes}"
    using assms(2) by (simp add: numeral_2_eq_2)
  have o1: "next_outcome w = Executes"
    using two by (rule next_outcome_available)
  let ?w1 = "snd (UpdateMessageStatus i b w)"
  let ?w1' = "?w1\<lparr>clock := t\<rparr>"
  have "set (take 1 (tl (db_script w))) \<subseteq> {Executes}"
    using two by (rule available_tl)
  then have "set (take (Suc 0) (db_script ?w1')) \<subseteq> {Executes}" by simp
  then have o2: "next_outcome ?w1' = Executes" by (rule next_outcome_available)
  have i2: "i \<in> set (ids ?w1')" using assms(1) by simp
  show "fst (UpdateMessageStatus i b w) = None"
    using assms(1) o1 by (simp add: fst_UpdateMessageStatus_Executes)
  show "fst (UpdateMessageStatus i b ?w1') = None"
    using i2 o2 by (simp add: fst_UpdateMessageStatus_Executes)
  obtain r where r: "record_of i w = Some r" "ID r = i"
    using record_of_ids[OF assms(1)] by blast
  have r1: "record_of i ?w1 = Some (r\<lparr>Processed := b, UpdatedAt := clock w\<rparr>)"
    using o1 r by (simp add: record_of_UpdateMessageStatus)
  then show "\<exists>r. record_of i ?w1 = Some r \<and> ID r = i \<and> Processed r = b"
    using r by simp
  have "record_of i (snd (UpdateMessageStatus i b ?w1')) =
          Some (r\<lparr>Processed := b, UpdatedAt := t\<rparr>)"
    using o2 r1 by (simp add: record_of_UpdateMessageStatus)
  then show "\<exists>r. record_of i (snd (UpdateMessageStatus i b ?w1')) = Some r \<and> ID r = i
                 \<and> Processed r = b \<and> UpdatedAt r = t"
    using r by simp
qed

lemma twice_ProcessMessage:
  assumes "i \<in> set (ids w)" and "set (take 2 (db_script w)) \<subseteq> {Executes}"
  shows "fst (ProcessMessage i w) = None"
    and "fst (ProcessMessage i ((snd (ProcessMessage i w))\<lparr>clock := t\<rparr>)) = None"
    and "\<exists>r. record_of i (snd (ProcessMessage i w)) = Some r \<and> ID r = i \<and> Processed r"
    and "\<exists>r. record_of i (snd (ProcessMessage i ((snd (ProcessMessage i w))\<lparr>clock := t\<rparr>)))
               = Some r \<and> ID r = i \<and> Processed r \<and> UpdatedAt r = t"
proof -
  have two: "set (take (Suc 1) (db_script w)) \<subseteq> {Executes}"
    using assms(2) by (simp add: numeral_2_eq_2)
  have o1: "next_outcome w = Executes"
    using two by (rule next_outcome_available)
  let ?w1 = "snd (ProcessMessage i w)"
  let ?w1' = "?w1\<lparr>clock := t\<rparr>"
  have "set (take 1 (tl (db_script w))) \<subseteq> {Executes}"
    using two by (rule available_tl)
  then have "set (take (Suc 0) (db_script ?w1')) \<subseteq> {Executes}" by simp
  then have o2: "next_outcome ?w1' = Executes" by (rule next_outcome_available)
  have i2: "i \<in> set (ids ?w1')" using assms(1) by simp
  show "fst (ProcessMessage i w) = None"
    using assms(1) o1 by (simp add: fst_ProcessMessage_None fst_UpdateMessageStatus_Executes)
  show "fst (ProcessMessage i ?w1') = None"
    using i2 o2 by (simp add: fst_ProcessMessage_None fst_UpdateMessageStatus_Executes)
  obtain r where r: "record_of i w = Some r" "ID r = i"
    using record_of_ids[OF assms(1)] by blast
  have "record_of i ?w1 = record_of i (snd (UpdateMessageStatus i True w))"
    by (rule record_of_rows) (rule rows_ProcessMessage)
  then have r1: "record_of i ?w1 = Some (r\<lparr>Processed := True, UpdatedAt := clock w\<rparr>)"
    using o1 r by (simp add: record_of_UpdateMessageStatus)
  then show "\<exists>r. record_of i ?w1 = Some r \<and> ID r = i \<and> Processed r"
    using r by simp
  have "record_of i (snd (ProcessMessage i ?w1')) = record_of i (snd (UpdateMessageStatus i True ?w1'))"
    by (rule record_of_rows) (rule rows_ProcessMessage)
  then have "record_of i (snd (ProcessMessage i ?w1')) =
          Some (r\<lparr>Processed := True, UpdatedAt := t\<rparr>)"
    using o2 r1 by (simp add: record_of_UpdateMessageStatus)
  then show "\<exists>r. record_of i (snd (ProcessMessage i ?w1')) = Some r \<and> ID r = i
                 \<and> Processed r \<and> UpdatedAt r = t"
    using r by simp
qed

text \<open>
  Claim C7. \<^verbatim>\<open>setProcessed\<close> is idempotent. For a record that exists and a database
  that executes both statements, \<^verbatim>\<open>UpdateMessageStatus(id, b)\<close> called twice returns
  nil both times; the record has \<open>processed = b\<close> after each call, and after the
  second call its \<^verbatim>\<open>updated_at\<close> is the instant \<open>t\<close> of that second call, whatever
  \<open>t\<close> is. The same holds for \<^verbatim>\<open>markProcessed\<close> (\<^verbatim>\<open>ProcessMessage\<close>) called twice:
  no error, and \<open>processed = true\<close> both times.
\<close>

theorem setProcessed_idempotent:
  assumes "i \<in> set (ids w)" and "set (take 2 (db_script w)) \<subseteq> {Executes}"
  shows "fst (UpdateMessageStatus i b w) = None
       \<and> (\<exists>r. record_of i (snd (UpdateMessageStatus i b w)) = Some r \<and> ID r = i \<and> Processed r = b)
       \<and> fst (UpdateMessageStatus i b ((snd (UpdateMessageStatus i b w))\<lparr>clock := t\<rparr>)) = None
       \<and> (\<exists>r. record_of i (snd (UpdateMessageStatus i b ((snd (UpdateMessageStatus i b w))\<lparr>clock := t\<rparr>)))
                 = Some r \<and> ID r = i \<and> Processed r = b \<and> UpdatedAt r = t)
       \<and> fst (ProcessMessage i w) = None
       \<and> (\<exists>r. record_of i (snd (ProcessMessage i w)) = Some r \<and> ID r = i \<and> Processed r)
       \<and> fst (ProcessMessage i ((snd (ProcessMessage i w))\<lparr>clock := t\<rparr>)) = None
       \<and> (\<exists>r. record_of i (snd (ProcessMessage i ((snd (ProcessMessage i w))\<lparr>clock := t\<rparr>)))
                 = Some r \<and> ID r = i \<and> Processed r \<and> UpdatedAt r = t)"
  by (intro conjI twice_UpdateMessageStatus[OF assms] twice_ProcessMessage[OF assms])

theorem setProcessed_idempotent_witness:
  "1 \<in> set (ids hello_world) \<and> set (take 2 (db_script hello_world)) \<subseteq> {Executes}
   \<and> fst (UpdateMessageStatus 1 True hello_world) = None
   \<and> fst (UpdateMessageStatus 1 True ((snd (UpdateMessageStatus 1 True hello_world))\<lparr>clock := 9\<rparr>)) = None
   \<and> (\<exists>r. record_of 1 (snd (UpdateMessageStatus 1 True
               ((snd (UpdateMessageStatus 1 True hello_world))\<lparr>clock := 9\<rparr>))) = Some r
          \<and> ID r = 1 \<and> Processed r = True \<and> UpdatedAt r = 9)
   \<and> fst (ProcessMessage 1 ((snd (ProcessMessage 1 hello_world))\<lparr>clock := 9\<rparr>)) = None"
proof -
  have h1: "1 \<in> set (ids hello_world)" by (simp add: ids_def hello_world_def)
  have h2: "set (take 2 (db_script hello_world)) \<subseteq> {Executes}" by (simp add: hello_world_def)
  show ?thesis
    using setProcessed_idempotent[OF h1 h2, of True 9] h1 h2 by simp
qed

subsection \<open>GetStatistics\<close>

lemma sql_COUNT_case_when:
  "sql_COUNT (map (case_when_processed b) rs) = int (length (filter (\<lambda>r. Processed r = b) rs))"
  by (induction rs) (simp_all add: sql_COUNT_def case_when_processed_def)

lemma sql_COUNT_partition:
  "sql_COUNT (map (case_when_processed True) rs) + sql_COUNT (map (case_when_processed False) rs)
     = int (length rs)"
  by (induction rs) (simp_all add: sql_COUNT_def case_when_processed_def)

lemma case_when_exclusive:
  "(case_when_processed True r \<noteq> None) \<noteq> (case_when_processed False r \<noteq> None)"
  by (simp add: case_when_processed_def)

lemma GetStatistics_frame [simp]:
  "rows (snd (GetStatistics w)) = rows w"
  "next_id (snd (GetStatistics w)) = next_id w"
  "calls (snd (GetStatistics w)) = calls w @ [SelectCounts]"
  "db_script (snd (GetStatistics w)) = tl (db_script w)"
  by (simp_all add: GetStatistics_def db_next_def split: db_outcome.splits)

lemma GetStatistics_Inr:
  "fst (GetStatistics w) = Inr st \<longleftrightarrow>
     next_outcome w = Executes \<and>
     st = \<lparr>TotalMessages = int (length (rows w)),
           ProcessedMessages = sql_COUNT (map (case_when_processed True) (rows w)),
           UnprocessedMessages = sql_COUNT (map (case_when_processed False) (rows w))\<rparr>"
  by (auto simp: GetStatistics_def db_next_def split: db_outcome.splits)

text \<open>
  Claim C6. In every state of the store reached by a sequence of creates and
  processed-status updates (from any state, under any behaviour of the database),
  \<^verbatim>\<open>GetStatistics\<close> sends a single statement and does not change the table; when it
  returns statistics, \<open>processed + unprocessed = total\<close>, the total is the number of
  records, the two counts are the numbers of records with \<open>processed\<close> true and false,
  and every record is counted by exactly one of the two \<^verbatim>\<open>COUNT(CASE ...)\<close> columns. It
  returns statistics whenever the database executes the statement.
\<close>

theorem statistics_consistent:
  "(\<forall>st. fst (GetStatistics (run_store ops w)) = Inr st \<longrightarrow>
       ProcessedMessages st + UnprocessedMessages st = TotalMessages st
     \<and> TotalMessages st = int (length (rows (run_store ops w)))
     \<and> ProcessedMessages st = int (length (filter Processed (rows (run_store ops w))))
     \<and> UnprocessedMessages st = int (length (filter (\<lambda>r. \<not> Processed r) (rows (run_store ops w)))))
   \<and> (\<forall>r \<in> set (rows (run_store ops w)).
        (case_when_processed True r \<noteq> None) \<noteq> (case_when_processed False r \<noteq> None))
   \<and> calls (snd (GetStatistics (run_store ops w))) = calls (run_store ops w) @ [SelectCounts]
   \<and> rows (snd (GetStatistics (run_store ops w))) = rows (run_store ops w)
   \<and> (next_outcome (run_store ops w) = Executes \<longrightarrow>
        (\<exists>st. fst (GetStatistics (run_store ops w)) = Inr st))"
proof -
  let ?W = "run_store ops w"
  have sums: "\<forall>st. fst (GetStatistics ?W) = Inr st \<longrightarrow>
       ProcessedMessages st + UnprocessedMessages st = TotalMessages st
     \<and> TotalMessages st = int (length (rows ?W))
     \<and> ProcessedMessages st = int (length (filter Processed (rows ?W)))
     \<and> UnprocessedMessages st = int (length (filter (\<lambda>r. \<not> Processed r) (rows ?W)))"
    using sql_COUNT_partition[of "rows ?W"] sql_COUNT_case_when[of True "rows ?W"]
      sql_COUNT_case_when[of False "rows ?W"]
    by (simp add: GetStatistics_Inr)
  have once: "\<forall>r \<in> set (rows ?W).
        (case_when_processed True r \<noteq> None) \<noteq> (case_when_processed False r \<noteq> None)"
    using case_when_exclusive by blast
  have returns: "next_outcome ?W = Executes \<longrightarrow> (\<exists>st. fst (GetStatistics ?W) = Inr st)"
    by (simp add: GetStatistics_Inr)
  show ?thesis
    by (intro conjI sums once returns) simp_all
qed


theorem statistics_consistent_witness:
  "fst (GetStatistics (run_store [Create ''Hello'', Create ''World'', SetProcessed 1 True] empty_world))
     = Inr \<lparr>TotalMessages = 2, ProcessedMessages = 1, UnprocessedMessages = 1\<rparr>
   \<and> ProcessedMessages \<lparr>TotalMessages = 2, ProcessedMessages = 1, UnprocessedMessages = 1\<rparr>
       + UnprocessedMessages \<lparr>TotalMessages = 2, ProcessedMessages = 1, UnprocessedMessages = 1\<rparr>
     = TotalMessages \<lparr>TotalMessages = 2, ProcessedMessages = 1, UnprocessedMessages = 1\<rparr>
   \<and> length (rows (run_store [Create ''Hello'', Create ''World'', SetProcessed 1 True] empty_world)) = 2"
proof -
  let ?ops = "[Create ''Hello'', Create ''World'', SetProcessed 1 True]"
  let ?st = "\<lparr>TotalMessages = 2, ProcessedMessages = 1, UnprocessedMessages = 1\<rparr>"
  have h: "fst (GetStatistics (run_store ?ops empty_world)) = Inr ?st"
    by code_simp
  have "ProcessedMessages ?st + UnprocessedMessages ?st = TotalMessages ?st
      \<and> TotalMessages ?st = int (length (rows (run_store ?ops empty_world)))"
    using statistics_consistent[of ?ops empty_world] h by blast
  then show ?thesis
    using h by simp
qed

subsection \<open>Every store error names its operation\<close>












subsection \<open>The service wraps and does not re-classify\<close>

lemma CreateMessage_logger:
  "fst (CreateMessage content (logger l m w)) = fst (CreateMessage content w)"
  by (simp add: CreateMessage_def db_next_def Let_def insert_row_def split: db_outcome.splits)






subsection \<open>CreateMessage and submit\<close>

lemma CreateMessage_Inr:
  "fst (CreateMessage content w) = Inr m \<longleftrightarrow>
     next_outcome w = Executes \<and> next_id w \<le> 2147483647 \<and>
     m = \<lparr>ID = next_id w, Content = content, Processed = False,
           CreatedAt = clock w, UpdatedAt = clock w\<rparr>"
  by (auto simp: CreateMessage_def db_next_def Let_def insert_row_def split: db_outcome.splits)

lemma CreateMessage_rows:
  "fst (CreateMessage content w) = Inr m \<Longrightarrow> rows (snd (CreateMessage content w)) = rows w @ [m]"
  by (auto simp: CreateMessage_def db_next_def Let_def insert_row_def split: db_outcome.splits if_splits)

lemma CreateMessage_frame [simp]:
  "calls (snd (CreateMessage content w)) = calls w @ [Insert content]"
  "effects (snd (CreateMessage content w)) = effects w @ [Statement (Insert content)]"
  "writer_script (snd (CreateMessage content w)) = writer_script w"
  "clock (snd (CreateMessage content w)) = clock w"
  "cancel_at (snd (CreateMessage content w)) = cancel_at w"
  "db_script (snd (CreateMessage content w)) = tl (db_script w)"
  by (simp_all add: CreateMessage_def db_next_def Let_def insert_row_def calls_def effects_def
        events_def split: db_outcome.splits)

lemma CreateMessage_logger_rows:
  "rows (snd (CreateMessage content (logger l m w))) = rows (snd (CreateMessage content w))"
  by (simp add: CreateMessage_def db_next_def Let_def insert_row_def split: db_outcome.splits)

lemma SendMessage_frame [simp]:
  "rows (snd (SendMessage topic b w)) = rows w"
  "calls (snd (SendMessage topic b w)) = calls w"
  "effects (snd (SendMessage topic b w)) = effects w @ [WriteMessages topic b]"
  "next_id (snd (SendMessage topic b w)) = next_id w"
  "db_script (snd (SendMessage topic b w)) = db_script w"
  "writer_script (snd (SendMessage topic b w)) = tl (writer_script w)"
  by (simp_all add: SendMessage_def writer_next_def emit_def calls_def effects_def events_def
        split: option.splits list.splits)

lemma fst_SendMessage:
  "fst (SendMessage topic b w) =
     (case writer_script w of
        Some e # rest \<Rightarrow> Some (Errorf ''failed to write message to Kafka'' e)
      | _ \<Rightarrow> None)"
  by (simp add: SendMessage_def writer_next_def emit_def split: option.splits list.splits)

lemma service_CreateMessage_created:
  assumes "fst (CreateMessage content w) = Inr m"
  shows "rows (snd (service_CreateMessage time_Format topic content w)) = rows w @ [m]"
    and "calls (snd (service_CreateMessage time_Format topic content w)) = calls w @ [Insert content]"
    and "effects (snd (service_CreateMessage time_Format topic content w)) =
           effects w @ [Statement (Insert content),
                        WriteMessages topic (JSON (JObject
                          [(''id'', JInt (ID m)), (''content'', JString (Content m)),
                           (''processed'', JBool (Processed m)),
                           (''created_at'', JString (time_Format (CreatedAt m))),
                           (''updated_at'', JString (time_Format (UpdatedAt m)))]))]"
    and "fst (service_CreateMessage time_Format topic content w) =
           (case writer_script w of
              Some e # rest \<Rightarrow>
                Inl (Errorf ''failed to send message to Kafka''
                       (Errorf ''failed to write message to Kafka'' e))
            | _ \<Rightarrow> Inr (ID m))"
proof -
  let ?w0 = "logger InfoLevel ''Creating message in repository'' w"
  have c: "fst (CreateMessage content ?w0) = Inr m"
    using assms by (simp add: CreateMessage_logger)
  have r: "rows (snd (CreateMessage content ?w0)) = rows w @ [m]"
    using CreateMessage_rows[OF assms] by (simp add: CreateMessage_logger_rows)
  show "rows (snd (service_CreateMessage time_Format topic content w)) = rows w @ [m]"
    using c r by (simp add: service_CreateMessage_def split_beta json_Marshal_def Let_def
                    split: option.splits)
  show "calls (snd (service_CreateMessage time_Format topic content w)) = calls w @ [Insert content]"
    using c by (simp add: service_CreateMessage_def split_beta json_Marshal_def Let_def
                  split: option.splits)
  show "effects (snd (service_CreateMessage time_Format topic content w)) =
           effects w @ [Statement (Insert content),
                        WriteMessages topic (JSON (JObject
                          [(''id'', JInt (ID m)), (''content'', JString (Content m)),
                           (''processed'', JBool (Processed m)),
                           (''created_at'', JString (time_Format (CreatedAt m))),
                           (''updated_at'', JString (time_Format (UpdatedAt m)))]))]"
    using c by (simp add: service_CreateMessage_def split_beta json_Marshal_def Let_def
                  split: option.splits)
  show "fst (service_CreateMessage time_Format topic content w) =
           (case writer_script w of
              Some e # rest \<Rightarrow>
                Inl (Errorf ''failed to send message to Kafka''
                       (Errorf ''failed to write message to Kafka'' e))
            | _ \<Rightarrow> Inr (ID m))"
    using c by (simp add: service_CreateMessage_def split_beta json_Marshal_def Let_def fst_SendMessage
                  split: option.splits list.splits)
qed


text \<open>
  Claim C4. When the store's create succeeds (it returns the record \<open>m\<close>) and the
  broker publish fails with \<open>e\<close>, submit returns an error that wraps \<open>e\<close> and no id;
  when the publish succeeds, submit returns \<open>ID m\<close>, the id the store assigned. In both
  cases the record \<open>m\<close>, with \<open>processed = false\<close>, is the row the table has gained, the
  \<^verbatim>\<open>INSERT\<close> is the only statement submit sent to the database and the envelope was
  handed to the writer once: nothing is rolled back, repaired or retried.
\<close>

theorem submit_publish_failure:
  assumes "fst (CreateMessage content w) = Inr m"
  shows "(\<forall>e rest. writer_script w = Some e # rest \<longrightarrow>
            fst (service_CreateMessage time_Format topic content w) =
              Inl (Errorf ''failed to send message to Kafka''
                     (Errorf ''failed to write message to Kafka'' e)))
       \<and> ((writer_script w = [] \<or> (\<exists>rest. writer_script w = None # rest)) \<longrightarrow>
            fst (service_CreateMessage time_Format topic content w) = Inr (ID m))
       \<and> rows (snd (service_CreateMessage time_Format topic content w)) = rows w @ [m]
       \<and> Processed m = False \<and> Content m = content \<and> ID m = next_id w
       \<and> calls (snd (service_CreateMessage time_Format topic content w)) = calls w @ [Insert content]
       \<and> (\<exists>envelope.
            effects (snd (service_CreateMessage time_Format topic content w))
              = effects w @ [Statement (Insert content), WriteMessages topic envelope])"
proof -
  have m: "Processed m = False \<and> Content m = content \<and> ID m = next_id w"
    using assms by (simp add: CreateMessage_Inr)
  have f: "\<forall>e rest. writer_script w = Some e # rest \<longrightarrow>
            fst (service_CreateMessage time_Format topic content w) =
              Inl (Errorf ''failed to send message to Kafka''
                     (Errorf ''failed to write message to Kafka'' e))"
    by (simp add: service_CreateMessage_created(4)[OF assms])
  have s: "(writer_script w = [] \<or> (\<exists>rest. writer_script w = None # rest)) \<longrightarrow>
            fst (service_CreateMessage time_Format topic content w) = Inr (ID m)"
    by (auto simp: service_CreateMessage_created(4)[OF assms])
  have e: "\<exists>envelope.
            effects (snd (service_CreateMessage time_Format topic content w))
              = effects w @ [Statement (Insert content), WriteMessages topic envelope]"
    using service_CreateMessage_created(3)[OF assms, of time_Format topic] by blast
  show ?thesis
    using m f s e service_CreateMessage_created(1,2)[OF assms, of time_Format topic]
    by (intro conjI) simp_all
qed

theorem submit_publish_failure_witness:
  "fst (CreateMessage ''Hello'' (empty_world\<lparr>writer_script := [Some (ErrNew ''kafka error'')]\<rparr>))
     = Inr \<lparr>ID = 1, Content = ''Hello'', Processed = False, CreatedAt = 0, UpdatedAt = 0\<rparr>
   \<and> fst (service_CreateMessage (\<lambda>t. []) ''messages'' ''Hello''
            (empty_world\<lparr>writer_script := [Some (ErrNew ''kafka error'')]\<rparr>))
     = Inl (Errorf ''failed to send message to Kafka''
              (Errorf ''failed to write message to Kafka'' (ErrNew ''kafka error'')))
   \<and> rows (snd (service_CreateMessage (\<lambda>t. []) ''messages'' ''Hello''
            (empty_world\<lparr>writer_script := [Some (ErrNew ''kafka error'')]\<rparr>)))
     = [\<lparr>ID = 1, Content = ''Hello'', Processed = False, CreatedAt = 0, UpdatedAt = 0\<rparr>]
   \<and> fst (CreateMessage ''Hello'' empty_world)
     = Inr \<lparr>ID = 1, Content = ''Hello'', Processed = False, CreatedAt = 0, UpdatedAt = 0\<rparr>
   \<and> fst (service_CreateMessage (\<lambda>t. []) ''messages'' ''Hello'' empty_world) = Inr 1"
proof -
  let ?w = "empty_world\<lparr>writer_script := [Some (ErrNew ''kafka error'')]\<rparr>"
  let ?m = "\<lparr>ID = 1, Content = ''Hello'', Processed = False, CreatedAt = 0, UpdatedAt = 0\<rparr>"
  have h1: "fst (CreateMessage ''Hello'' ?w) = Inr ?m"
    by code_simp
  have h2: "fst (CreateMessage ''Hello'' empty_world) = Inr ?m"
    by code_simp
  have s1: "writer_script ?w = [Some (ErrNew ''kafka error'')]"
    by simp
  have s2: "writer_script empty_world = []"
    by (simp add: empty_world_def)
  have r: "rows ?w = []"
    by (simp add: empty_world_def)
  show ?thesis
    using submit_publish_failure[OF h1, of "\<lambda>t. []" "''messages''"]
      submit_publish_failure[OF h2, of "\<lambda>t. []" "''messages''"] h1 h2 s1 s2 r
    by simp
qed

subsection \<open>Content validation\<close>

lemma regexp_MatchString_angle_iff:
  "regexp_MatchString_angle content \<longleftrightarrow> CHR ''<'' \<in> set content \<or> CHR ''>'' \<in> set content"
  by (auto simp: regexp_MatchString_angle_def list_ex_iff)

lemma ValidateMessageContent_invalid:
  "ValidateMessageContent v content \<noteq> None \<longleftrightarrow>
     content = [] \<or> int (utf8_RuneCountInString content) > maxContentLength v
     \<or> CHR ''<'' \<in> set content \<or> CHR ''>'' \<in> set content"
  by (auto simp: ValidateMessageContent_def regexp_MatchString_angle_iff)

lemma CreateMessageHandler_rejects:
  assumes "ValidateMessageContent (validator h) content \<noteq> None"
  shows "fst (fst (CreateMessageHandler h time_Format topic (Inr content) w)) = 400"
    and "rows (snd (CreateMessageHandler h time_Format topic (Inr content) w)) = rows w"
    and "next_id (snd (CreateMessageHandler h time_Format topic (Inr content) w)) = next_id w"
    and "effects (snd (CreateMessageHandler h time_Format topic (Inr content) w)) = effects w"
  using assms
  by (auto simp: CreateMessageHandler_def split: option.splits validation_Error.splits)

text \<open>
  Claim C3, as stated, fails: the store's create and submit do not look at the content.
  Called with the empty string on a new store, \<^verbatim>\<open>CreateMessage\<close> of the repository
  returns a record with id 1 and the table holds it; submit returns id 1; the same
  happens with content \<open><b>\<close>. The validator rejects both strings.
\<close>

theorem create_validates_content_counterexample:
  "ValidateMessageContent (NewMessageValidator 1000) [] \<noteq> None
   \<and> fst (CreateMessage [] empty_world)
       = Inr \<lparr>ID = 1, Content = [], Processed = False, CreatedAt = 0, UpdatedAt = 0\<rparr>
   \<and> rows (snd (CreateMessage [] empty_world))
       = [\<lparr>ID = 1, Content = [], Processed = False, CreatedAt = 0, UpdatedAt = 0\<rparr>]
   \<and> fst (service_CreateMessage (\<lambda>t. []) ''messages'' [] empty_world) = Inr 1
   \<and> rows (snd (service_CreateMessage (\<lambda>t. []) ''messages'' [] empty_world))
       = [\<lparr>ID = 1, Content = [], Processed = False, CreatedAt = 0, UpdatedAt = 0\<rparr>]
   \<and> ValidateMessageContent (NewMessageValidator 1000) ''<b>'' \<noteq> None
   \<and> fst (service_CreateMessage (\<lambda>t. []) ''messages'' ''<b>'' empty_world) = Inr 1"
  by code_simp

text \<open>
  Claim C3, amended. Content is validated at the request boundary only. For every invalid
  content string (empty, more code points than the validator's maximum, or containing
  \<open><\<close> or \<open>>\<close>) \<^verbatim>\<open>ValidateMessageContent\<close> returns an error and
  \<^verbatim>\<open>CreateMessageHandler\<close> answers with status 400 without calling submit: the table is
  unchanged and nothing is sent to the database or the broker. The store's create does
  not validate: whenever the database executes the \<^verbatim>\<open>INSERT\<close> (and the id sequence is
  not exhausted), it creates a record with exactly that content.
\<close>

theorem content_validated_at_boundary:
  assumes "content = [] \<or> int (utf8_RuneCountInString content) > maxContentLength (validator h)
           \<or> CHR ''<'' \<in> set content \<or> CHR ''>'' \<in> set content"
  shows "ValidateMessageContent (validator h) content \<noteq> None
       \<and> fst (fst (CreateMessageHandler h time_Format topic (Inr content) w)) = 400
       \<and> rows (snd (CreateMessageHandler h time_Format topic (Inr content) w)) = rows w
       \<and> effects (snd (CreateMessageHandler h time_Format topic (Inr content) w)) = effects w
       \<and> (next_outcome w = Executes \<and> next_id w \<le> 2147483647 \<longrightarrow>
            (\<exists>m. fst (CreateMessage content w) = Inr m \<and> Content m = content
                \<and> rows (snd (CreateMessage content w)) = rows w @ [m]))"
proof -
  have v: "ValidateMessageContent (validator h) content \<noteq> None"
    using assms by (simp only: ValidateMessageContent_invalid)
  have c: "next_outcome w = Executes \<and> next_id w \<le> 2147483647 \<longrightarrow>
            (\<exists>m. fst (CreateMessage content w) = Inr m \<and> Content m = content
                \<and> rows (snd (CreateMessage content w)) = rows w @ [m])"
  proof
    assume a: "next_outcome w = Executes \<and> next_id w \<le> 2147483647"
    let ?m = "\<lparr>ID = next_id w, Content = content, Processed = False,
               CreatedAt = clock w, UpdatedAt = clock w\<rparr>"
    have "fst (CreateMessage content w) = Inr ?m"
      using a by (simp add: CreateMessage_Inr)
    then show "\<exists>m. fst (CreateMessage content w) = Inr m \<and> Content m = content
                \<and> rows (snd (CreateMessage content w)) = rows w @ [m]"
      using CreateMessage_rows by fastforce
  qed
  show ?thesis
    using v c CreateMessageHandler_rejects(1,2,4)[OF v, of time_Format topic w]
    by (intro conjI) simp_all
qed

theorem content_validated_at_boundary_witness:
  "CHR ''<'' \<in> set ''<b>''
   \<and> ValidateMessageContent (validator NewMessageHandler) ''<b>'' \<noteq> None
   \<and> fst (fst (CreateMessageHandler NewMessageHandler (\<lambda>t. []) ''messages'' (Inr ''<b>'') empty_world)) = 400
   \<and> rows (snd (CreateMessageHandler NewMessageHandler (\<lambda>t. []) ''messages'' (Inr ''<b>'') empty_world)) = []
   \<and> next_outcome empty_world = Executes \<and> next_id empty_world \<le> 2147483647
   \<and> (\<exists>m. fst (CreateMessage ''<b>'' empty_world) = Inr m \<and> Content m = ''<b>'')"
proof -
  have h: "CHR ''<'' \<in> set ''<b>''" by simp
  have e: "next_outcome empty_world = Executes" "next_id empty_world \<le> 2147483647"
          "rows empty_world = []"
    by (simp_all add: empty_world_def next_outcome_def)
  have "ValidateMessageContent (validator NewMessageHandler) ''<b>'' \<noteq> None
       \<and> fst (fst (CreateMessageHandler NewMessageHandler (\<lambda>t. []) ''messages'' (Inr ''<b>'') empty_world)) = 400
       \<and> rows (snd (CreateMessageHandler NewMessageHandler (\<lambda>t. []) ''messages'' (Inr ''<b>'') empty_world)) = rows empty_world
       \<and> effects (snd (CreateMessageHandler NewMessageHandler (\<lambda>t. []) ''messages'' (Inr ''<b>'') empty_world)) = effects empty_world
       \<and> (next_outcome empty_world = Executes \<and> next_id empty_world \<le> 2147483647 \<longrightarrow>
            (\<exists>m. fst (CreateMessage ''<b>'' empty_world) = Inr m \<and> Content m = ''<b>''
                \<and> rows (snd (CreateMessage ''<b>'' empty_world)) = rows empty_world @ [m]))"
    by (rule content_validated_at_boundary) (simp add: h)
  then show ?thesis
    using h e by auto
qed

subsection \<open>The retry loop, one iteration at a time\<close>

lemma fst_UpdateMessageStatus_cong:
  "ids w = ids w' \<Longrightarrow> db_script w = db_script w' \<Longrightarrow>
   fst (UpdateMessageStatus i b w) = fst (UpdateMessageStatus i b w')"
  by (simp add: UpdateMessageStatus_def db_next_def Let_def next_outcome_def rows_affected_ids
        split: db_outcome.splits)

lemma fails_then_succeeds_cong:
  "ids w = ids w' \<Longrightarrow> db_script w = db_script w' \<Longrightarrow>
   fails_then_succeeds k i w = fails_then_succeeds k i w'"
proof (induction k arbitrary: w w')
  case 0
  then show ?case
    using fst_UpdateMessageStatus_cong[of w w' i True] by simp
next
  case (Suc k)
  have f: "fst (UpdateMessageStatus i True w) = fst (UpdateMessageStatus i True w')"
    using Suc.prems by (rule fst_UpdateMessageStatus_cong)
  have s: "fails_then_succeeds k i (snd (UpdateMessageStatus i True w))
         = fails_then_succeeds k i (snd (UpdateMessageStatus i True w'))"
    using Suc.prems by (intro Suc.IH) simp_all
  show ?case
    using f s by (simp add: split_beta split: option.splits)
qed

lemma skip_switch_retryable:
  "retryable_error e \<Longrightarrow> skip_switch e w = (False, w)"
  by (cases "errors_As e") (simp_all add: skip_switch_def retryable_error_def)

lemma skip_switch_not_retryable:
  "\<not> retryable_error e \<Longrightarrow>
   skip_switch e w =
     (True, logger WarnLevel
              (if ErrorCode (the (errors_As e)) = ErrorCodeMessageNotFound
               then ''Message not found for processing'' else ''Invalid message ID format'') w)"
  by (cases "errors_As e") (auto simp: skip_switch_def retryable_error_def)

lemma retry_exit:
  "\<not> attempt \<le> maxRetries \<Longrightarrow>
   processKafkaMessages_retry maxRetries retryDelay i attempt processErr w = (False, processErr, w)"
  by (simp add: processKafkaMessages_retry.simps)

lemma retry_success:
  "attempt \<le> maxRetries \<Longrightarrow> fst (ProcessMessage i w) = None \<Longrightarrow>
   processKafkaMessages_retry maxRetries retryDelay i attempt processErr w
     = (False, None, snd (ProcessMessage i w))"
  by (subst processKafkaMessages_retry.simps) (simp add: split_beta)

lemma retry_skip:
  "attempt \<le> maxRetries \<Longrightarrow> fst (ProcessMessage i w) = Some e \<Longrightarrow> \<not> retryable_error e \<Longrightarrow>
   processKafkaMessages_retry maxRetries retryDelay i attempt processErr w
     = (True, None, snd (skip_switch e (snd (ProcessMessage i w))))"
  by (subst processKafkaMessages_retry.simps)
     (simp add: split_beta skip_switch_not_retryable)

lemma retry_again:
  "attempt \<le> maxRetries \<Longrightarrow> fst (ProcessMessage i w) = Some e \<Longrightarrow> retryable_error e \<Longrightarrow>
   processKafkaMessages_retry maxRetries retryDelay i attempt processErr w
     = processKafkaMessages_retry maxRetries retryDelay i (attempt + 1) (Some e)
         (if attempt < maxRetries then
            time_Sleep retryDelay
              (logger WarnLevel ''Error processing message, retrying'' (snd (ProcessMessage i w)))
          else snd (ProcessMessage i w))"
  by (subst processKafkaMessages_retry.simps)
     (simp add: split_beta skip_switch_retryable)

subsection \<open>Induction over the retry loop\<close>

lemma retry_rule:
  assumes exit: "\<And>attempt pe w. \<not> attempt \<le> mr \<Longrightarrow> P attempt pe w (False, pe, w)"
    and success: "\<And>attempt pe w. attempt \<le> mr \<Longrightarrow> fst (ProcessMessage i w) = None \<Longrightarrow>
                    P attempt pe w (False, None, snd (ProcessMessage i w))"
    and skip: "\<And>attempt pe w e. attempt \<le> mr \<Longrightarrow> fst (ProcessMessage i w) = Some e \<Longrightarrow>
                 \<not> retryable_error e \<Longrightarrow>
                 P attempt pe w (True, None, snd (skip_switch e (snd (ProcessMessage i w))))"
    and again: "\<And>attempt pe w e. attempt \<le> mr \<Longrightarrow> fst (ProcessMessage i w) = Some e \<Longrightarrow>
                  retryable_error e \<Longrightarrow>
                  P (attempt + 1) (Some e) (after_failure mr d i attempt w)
                    (processKafkaMessages_retry mr d i (attempt + 1) (Some e)
                       (after_failure mr d i attempt w)) \<Longrightarrow>
                  P attempt pe w
                    (processKafkaMessages_retry mr d i (attempt + 1) (Some e)
                       (after_failure mr d i attempt w))"
  shows "P attempt pe w (processKafkaMessages_retry mr d i attempt pe w)"
proof (induction "nat (mr + 1 - attempt)" arbitrary: attempt pe w)
  case 0
  then have "\<not> attempt \<le> mr" by simp
  then show ?case by (simp add: retry_exit exit)
next
  case (Suc n)
  then have le: "attempt \<le> mr" by simp
  show ?case
  proof (cases "fst (ProcessMessage i w)")
    case None
    then show ?thesis using le by (simp add: retry_success success)
  next
    case (Some e)
    show ?thesis
    proof (cases "retryable_error e")
      case False
      then show ?thesis using le Some by (simp add: retry_skip skip)
    next
      case True
      have n: "n = nat (mr + 1 - (attempt + 1))" using Suc.hyps(2) by simp
      have eq: "processKafkaMessages_retry mr d i attempt pe w
              = processKafkaMessages_retry mr d i (attempt + 1) (Some e) (after_failure mr d i attempt w)"
        using le Some True by (simp add: retry_again after_failure_def)
      show ?thesis
        unfolding eq
        by (rule again[OF le Some True]) (rule Suc.hyps(1)[OF n])
    qed
  qed
qed


lemma after_failure_fields [simp]:
  "calls (after_failure mr d i attempt w) = calls w @ [Update True i]"
  "sleeps (after_failure mr d i attempt w) = sleeps w @ (if attempt < mr then [d] else [])"
  "effects (after_failure mr d i attempt w) =
     effects w @ Statement (Update True i) # (if attempt < mr then [Slept d] else [])"
  "ids (after_failure mr d i attempt w) = ids w"
  "db_script (after_failure mr d i attempt w) = tl (db_script w)"
  "cancel_at (after_failure mr d i attempt w) = cancel_at w"
  "clock (after_failure mr d i attempt w) = clock w + (if attempt < mr then nat d else 0)"
  by (simp_all add: after_failure_def)

lemma skip_switch_fields [simp]:
  "calls (snd (skip_switch e w)) = calls w"
  "sleeps (snd (skip_switch e w)) = sleeps w"
  "effects (snd (skip_switch e w)) = effects w"
  "ids (snd (skip_switch e w)) = ids w"
  "rows (snd (skip_switch e w)) = rows w"
  "db_script (snd (skip_switch e w)) = db_script w"
  "cancel_at (snd (skip_switch e w)) = cancel_at w"
  "clock (snd (skip_switch e w)) = clock w"
  by (simp_all add: skip_switch_def split: option.splits)

text \<open>Every run of the retry loop: what it calls, how often, and what it leaves alone.\<close>

lemma retry_calls:
  "\<exists>n. calls (snd (snd (processKafkaMessages_retry mr d i attempt pe w)))
          = calls w @ replicate n (Update True i)
      \<and> int n \<le> max 0 (mr + 1 - attempt)"
proof (rule retry_rule[where P = "\<lambda>attempt pe w r.
          \<exists>n. calls (snd (snd r)) = calls w @ replicate n (Update True i)
             \<and> int n \<le> max 0 (mr + 1 - attempt)"])
  fix attempt :: int and pe :: "err option" and w :: world
  show "\<exists>n. calls (snd (snd (False, pe, w))) = calls w @ replicate n (Update True i)
           \<and> int n \<le> max 0 (mr + 1 - attempt)"
    by (rule exI[of _ 0]) simp
next
  fix attempt :: int and pe :: "err option" and w :: world
  assume "attempt \<le> mr"
  then show "\<exists>n. calls (snd (snd (False, None :: err option, snd (ProcessMessage i w))))
                 = calls w @ replicate n (Update True i)
           \<and> int n \<le> max 0 (mr + 1 - attempt)"
    by (intro exI[of _ 1]) simp
next
  fix attempt :: int and pe :: "err option" and w :: world and e :: err
  assume "attempt \<le> mr"
  then show "\<exists>n. calls (snd (snd (True, None :: err option, snd (skip_switch e (snd (ProcessMessage i w))))))
                 = calls w @ replicate n (Update True i)
           \<and> int n \<le> max 0 (mr + 1 - attempt)"
    by (intro exI[of _ 1]) simp
next
  fix attempt :: int and pe :: "err option" and w :: world and e :: err
  let ?r = "processKafkaMessages_retry mr d i (attempt + 1) (Some e) (after_failure mr d i attempt w)"
  assume le: "attempt \<le> mr"
    and "\<exists>n. calls (snd (snd ?r)) = calls (after_failure mr d i attempt w) @ replicate n (Update True i)
            \<and> int n \<le> max 0 (mr + 1 - (attempt + 1))"
  then obtain n where n: "calls (snd (snd ?r)) = calls w @ Update True i # replicate n (Update True i)"
      "int n \<le> max 0 (mr + 1 - (attempt + 1))"
    by auto
  have "calls (snd (snd ?r)) = calls w @ replicate (Suc n) (Update True i)
      \<and> int (Suc n) \<le> max 0 (mr + 1 - attempt)"
    using n le by simp
  then show "\<exists>n. calls (snd (snd ?r)) = calls w @ replicate n (Update True i)
           \<and> int n \<le> max 0 (mr + 1 - attempt)"
    by blast
qed

lemma retry_sleeps:
  "\<exists>s. sleeps (snd (snd (processKafkaMessages_retry mr d i attempt pe w)))
          = sleeps w @ replicate s d
      \<and> int s \<le> max 0 (mr - attempt)
      \<and> clock (snd (snd (processKafkaMessages_retry mr d i attempt pe w))) = clock w + s * nat d"
proof (rule retry_rule[where P = "\<lambda>attempt pe w r.
          \<exists>s. sleeps (snd (snd r)) = sleeps w @ replicate s d
             \<and> int s \<le> max 0 (mr - attempt)
             \<and> clock (snd (snd r)) = clock w + s * nat d"])
  fix attempt :: int and pe :: "err option" and w :: world
  show "\<exists>s. sleeps (snd (snd (False, pe, w))) = sleeps w @ replicate s d
           \<and> int s \<le> max 0 (mr - attempt)
           \<and> clock (snd (snd (False, pe, w))) = clock w + s * nat d"
    by (rule exI[of _ 0]) simp
next
  fix attempt :: int and pe :: "err option" and w :: world
  show "\<exists>s. sleeps (snd (snd (False, None :: err option, snd (ProcessMessage i w))))
                 = sleeps w @ replicate s d
           \<and> int s \<le> max 0 (mr - attempt)
           \<and> clock (snd (snd (False, None :: err option, snd (ProcessMessage i w)))) = clock w + s * nat d"
    by (rule exI[of _ 0]) simp
next
  fix attempt :: int and pe :: "err option" and w :: world and e :: err
  show "\<exists>s. sleeps (snd (snd (True, None :: err option, snd (skip_switch e (snd (ProcessMessage i w))))))
                 = sleeps w @ replicate s d
           \<and> int s \<le> max 0 (mr - attempt)
           \<and> clock (snd (snd (True, None :: err option, snd (skip_switch e (snd (ProcessMessage i w))))))
               = clock w + s * nat d"
    by (rule exI[of _ 0]) simp
next
  fix attempt :: int and pe :: "err option" and w :: world and e :: err
  let ?r = "processKafkaMessages_retry mr d i (attempt + 1) (Some e) (after_failure mr d i attempt w)"
  assume le: "attempt \<le> mr"
    and "\<exists>s. sleeps (snd (snd ?r)) = sleeps (after_failure mr d i attempt w) @ replicate s d
            \<and> int s \<le> max 0 (mr - (attempt + 1))
            \<and> clock (snd (snd ?r)) = clock (after_failure mr d i attempt w) + s * nat d"
  then obtain s where s:
      "sleeps (snd (snd ?r)) = sleeps (after_failure mr d i attempt w) @ replicate s d"
      "int s \<le> max 0 (mr - (attempt + 1))"
      "clock (snd (snd ?r)) = clock (after_failure mr d i attempt w) + s * nat d"
    by auto
  show "\<exists>s. sleeps (snd (snd ?r)) = sleeps w @ replicate s d
           \<and> int s \<le> max 0 (mr - attempt)
           \<and> clock (snd (snd ?r)) = clock w + s * nat d"
  proof (cases "attempt < mr")
    case True
    then have "sleeps (snd (snd ?r)) = sleeps w @ replicate (Suc s) d
        \<and> int (Suc s) \<le> max 0 (mr - attempt)
        \<and> clock (snd (snd ?r)) = clock w + Suc s * nat d"
      using s by simp
    then show ?thesis by blast
  next
    case False
    then have "s = 0" using s(2) le by simp
    then have "sleeps (snd (snd ?r)) = sleeps w @ replicate 0 d
        \<and> int 0 \<le> max 0 (mr - attempt)
        \<and> clock (snd (snd ?r)) = clock w + 0 * nat d"
      using s False by simp
    then show ?thesis by blast
  qed
qed

lemma retry_frame:
  "ids (snd (snd (processKafkaMessages_retry mr d i attempt pe w))) = ids w
   \<and> cancel_at (snd (snd (processKafkaMessages_retry mr d i attempt pe w))) = cancel_at w"
  by (rule retry_rule[where P = "\<lambda>attempt pe w r.
          ids (snd (snd r)) = ids w \<and> cancel_at (snd (snd r)) = cancel_at w"]) simp_all

subsection \<open>Failing \<open>k\<close> times, then succeeding\<close>

lemma UpdateMessageStatus_None:
  "fst (UpdateMessageStatus i b w) = None \<Longrightarrow> next_outcome w = Executes \<and> i \<in> set (ids w)"
  by (auto simp: UpdateMessageStatus_def db_next_def Let_def rows_affected_0
           split: db_outcome.splits if_splits)

lemma record_of_ProcessMessage_success:
  assumes "fst (UpdateMessageStatus i True w) = None"
  shows "\<exists>r. record_of i (snd (ProcessMessage i w)) = Some r \<and> Processed r"
proof -
  have o: "next_outcome w = Executes" and m: "i \<in> set (ids w)"
    using UpdateMessageStatus_None[OF assms] by simp_all
  obtain r where r: "record_of i w = Some r"
    using record_of_ids[OF m] by blast
  have "record_of i (snd (ProcessMessage i w)) = record_of i (snd (UpdateMessageStatus i True w))"
    by (rule record_of_rows) (rule rows_ProcessMessage)
  then have "record_of i (snd (ProcessMessage i w)) = Some (r\<lparr>Processed := True, UpdatedAt := clock w\<rparr>)"
    using o r by (simp add: record_of_UpdateMessageStatus)
  then show ?thesis by simp
qed

lemma retryable_error_cong: "errors_As e' = errors_As e \<Longrightarrow> retryable_error e' = retryable_error e"
  by (simp add: retryable_error_def)

lemma fails_then_succeeds_Suc:
  "fails_then_succeeds (Suc k) i w \<longleftrightarrow>
     (\<exists>e. fst (UpdateMessageStatus i True w) = Some e \<and> retryable_error e)
     \<and> fails_then_succeeds k i (snd (UpdateMessageStatus i True w))"
proof (cases "UpdateMessageStatus i True w")
  case (Pair x w')
  then show ?thesis by (cases x) simp_all
qed

lemma retry_fails_then_succeeds:
  assumes "fails_then_succeeds k i w" and "attempt + int k \<le> mr"
  shows "fst (processKafkaMessages_retry mr d i attempt pe w) = False
       \<and> fst (snd (processKafkaMessages_retry mr d i attempt pe w)) = None
       \<and> effects (snd (snd (processKafkaMessages_retry mr d i attempt pe w)))
           = effects w @ concat (replicate k [Statement (Update True i), Slept d])
               @ [Statement (Update True i)]
       \<and> (\<exists>r. record_of i (snd (snd (processKafkaMessages_retry mr d i attempt pe w))) = Some r
              \<and> Processed r)"
  using assms
proof (induction k arbitrary: attempt pe w)
  case 0
  then have u: "fst (UpdateMessageStatus i True w) = None" and le: "attempt \<le> mr"
    by simp_all
  have p: "fst (ProcessMessage i w) = None"
    using u by (simp add: fst_ProcessMessage_None)
  show ?case
    using record_of_ProcessMessage_success[OF u]
    by (simp add: retry_success[OF le p])
next
  case (Suc k)
  from Suc.prems(1) obtain e where
    e: "fst (UpdateMessageStatus i True w) = Some e" "retryable_error e"
    and rest: "fails_then_succeeds k i (snd (UpdateMessageStatus i True w))"
    unfolding fails_then_succeeds_Suc by blast
  obtain e' where e': "fst (ProcessMessage i w) = Some e'" "errors_As e' = errors_As e"
    using errors_As_ProcessMessage[OF e(1)] by blast
  have r': "retryable_error e'"
    using retryable_error_cong[OF e'(2)] e(2) by simp
  have lt: "attempt < mr" and le: "attempt \<le> mr" and le': "(attempt + 1) + int k \<le> mr"
    using Suc.prems(2) by simp_all
  let ?w1 = "after_failure mr d i attempt w"
  have "fails_then_succeeds k i ?w1 = fails_then_succeeds k i (snd (UpdateMessageStatus i True w))"
    by (rule fails_then_succeeds_cong) simp_all
  then have f: "fails_then_succeeds k i ?w1"
    using rest by simp
  have eq: "processKafkaMessages_retry mr d i attempt pe w
          = processKafkaMessages_retry mr d i (attempt + 1) (Some e') ?w1"
    using retry_again[OF le e'(1) r'] by (simp add: after_failure_def)
  show ?case
    unfolding eq using Suc.IH[OF f le', of "Some e'"] lt by simp
qed

subsection \<open>One message\<close>

lemma calls_effects: "calls w = concat (map statement_of (effects w))"
proof -
  have "concat (map statement_of (concat (map effect_of evs))) = concat (map statement_of evs)" for evs
  proof (induction evs)
    case Nil
    show ?case by simp
  next
    case (Cons ev evs)
    then show ?case by (cases ev) simp_all
  qed
  then show ?thesis by (simp add: calls_def effects_def)
qed

lemma sleeps_effects: "sleeps w = concat (map sleep_of (effects w))"
proof -
  have "concat (map sleep_of (concat (map effect_of evs))) = concat (map sleep_of evs)" for evs
  proof (induction evs)
    case Nil
    show ?case by simp
  next
    case (Cons ev evs)
    then show ?case by (cases ev) simp_all
  qed
  then show ?thesis by (simp add: sleeps_def effects_def)
qed

lemma statements_of_rounds:
  "concat (map statement_of (concat (replicate k [Statement s, Slept d]))) = replicate k s"
  by (induction k) simp_all

lemma sleeps_of_rounds:
  "concat (map sleep_of (concat (replicate k [Statement s, Slept d]))) = replicate k d"
  by (induction k) simp_all

lemma message_fields:
  "calls (processKafkaMessages_message mr d m w)
     = calls (snd (snd (processKafkaMessages_retry mr d (ID m) 0 None
                          (logger InfoLevel ''Processing Kafka message'' w))))"
  "sleeps (processKafkaMessages_message mr d m w)
     = sleeps (snd (snd (processKafkaMessages_retry mr d (ID m) 0 None
                          (logger InfoLevel ''Processing Kafka message'' w))))"
  "effects (processKafkaMessages_message mr d m w)
     = effects (snd (snd (processKafkaMessages_retry mr d (ID m) 0 None
                          (logger InfoLevel ''Processing Kafka message'' w))))"
  "rows (processKafkaMessages_message mr d m w)
     = rows (snd (snd (processKafkaMessages_retry mr d (ID m) 0 None
                          (logger InfoLevel ''Processing Kafka message'' w))))"
  "clock (processKafkaMessages_message mr d m w)
     = clock (snd (snd (processKafkaMessages_retry mr d (ID m) 0 None
                          (logger InfoLevel ''Processing Kafka message'' w))))"
  "cancel_at (processKafkaMessages_message mr d m w)
     = cancel_at (snd (snd (processKafkaMessages_retry mr d (ID m) 0 None
                          (logger InfoLevel ''Processing Kafka message'' w))))"
  by (simp_all add: processKafkaMessages_message_def split_beta)

lemma message_logs:
  "logs (processKafkaMessages_message mr d m w)
     = logs (snd (snd (processKafkaMessages_retry mr d (ID m) 0 None
                          (logger InfoLevel ''Processing Kafka message'' w))))
       @ [if fst (processKafkaMessages_retry mr d (ID m) 0 None
                    (logger InfoLevel ''Processing Kafka message'' w))
             \<or> fst (snd (processKafkaMessages_retry mr d (ID m) 0 None
                    (logger InfoLevel ''Processing Kafka message'' w))) = None
          then (InfoLevel, ''Successfully processed Kafka message'')
          else (ErrorLevel, ''Failed to process message after retries'')]"
  by (simp add: processKafkaMessages_message_def split_beta)

lemma message_applied:
  assumes "fails_then_succeeds k (ID m) w" and "int k \<le> mr"
  shows "effects (processKafkaMessages_message mr d m w)
           = effects w @ concat (replicate k [Statement (Update True (ID m)), Slept d])
               @ [Statement (Update True (ID m))]"
    and "last (logs (processKafkaMessages_message mr d m w))
           = (InfoLevel, ''Successfully processed Kafka message'')"
    and "\<exists>r. record_of (ID m) (processKafkaMessages_message mr d m w) = Some r \<and> Processed r"
proof -
  let ?w0 = "logger InfoLevel ''Processing Kafka message'' w"
  let ?R = "processKafkaMessages_retry mr d (ID m) 0 None ?w0"
  have "fails_then_succeeds k (ID m) ?w0 = fails_then_succeeds k (ID m) w"
    by (rule fails_then_succeeds_cong) simp_all
  then have f: "fails_then_succeeds k (ID m) ?w0"
    using assms(1) by simp
  have le: "0 + int k \<le> mr" using assms(2) by simp
  note R = retry_fails_then_succeeds[OF f le, of d None]
  show "effects (processKafkaMessages_message mr d m w)
           = effects w @ concat (replicate k [Statement (Update True (ID m)), Slept d])
               @ [Statement (Update True (ID m))]"
    using R by (simp add: message_fields)
  show "last (logs (processKafkaMessages_message mr d m w))
           = (InfoLevel, ''Successfully processed Kafka message'')"
    using R by (simp add: message_logs)
  have "record_of (ID m) (processKafkaMessages_message mr d m w) = record_of (ID m) (snd (snd ?R))"
    by (rule record_of_rows) (rule message_fields)
  then show "\<exists>r. record_of (ID m) (processKafkaMessages_message mr d m w) = Some r \<and> Processed r"
    using R by simp
qed

lemma message_attempts:
  "\<exists>n. calls (processKafkaMessages_message mr d m w) = calls w @ replicate n (Update True (ID m))
      \<and> int n \<le> max 0 (mr + 1)"
  using retry_calls[of mr d "ID m" 0 None "logger InfoLevel ''Processing Kafka message'' w"]
  by (simp add: message_fields)

lemma message_sleeps:
  "\<exists>s. sleeps (processKafkaMessages_message mr d m w) = sleeps w @ replicate s d
      \<and> int s \<le> max 0 mr"
  using retry_sleeps[of mr d "ID m" 0 None "logger InfoLevel ''Processing Kafka message'' w"]
  by (auto simp: message_fields)

subsection \<open>One turn of the consume loop\<close>

lemma observations_clock [simp]:
  "events (w\<lparr>clock := t\<rparr>) = events w" "calls (w\<lparr>clock := t\<rparr>) = calls w"
  "sleeps (w\<lparr>clock := t\<rparr>) = sleeps w" "logs (w\<lparr>clock := t\<rparr>) = logs w"
  "effects (w\<lparr>clock := t\<rparr>) = effects w"
  by (simp_all add: events_def calls_def sleeps_def logs_def effects_def)

lemma signal_after_not_Done: "signal_after t w \<Longrightarrow> clock w \<le> t \<Longrightarrow> \<not> ctx_Done w"
  by (auto simp: signal_after_def ctx_Done_def split: option.splits)

lemma ReadMessage_Arrives:
  "signal_after (clock w + dl) w \<Longrightarrow>
   ReadMessage (Arrives dl payload) w = (Inr payload, w\<lparr>clock := clock w + dl\<rparr>)"
  by (auto simp: ReadMessage_def reader_returns_def signal_after_def split: option.splits)

lemma loop_message:
  assumes "signal_after (clock w + dl) w" and "json_Unmarshal tp payload = Inr message"
  shows "processKafkaMessages tp mr d (Arrives dl payload # evs) w
       = processKafkaMessages tp mr d evs
           (processKafkaMessages_message mr d message (w\<lparr>clock := clock w + dl\<rparr>))"
  using assms signal_after_not_Done[OF assms(1)]
  by (simp add: ReadMessage_Arrives)

lemma loop_undecodable:
  assumes "signal_after (clock w + dl) w" and "json_Unmarshal tp payload = Inl e"
  shows "processKafkaMessages tp mr d (Arrives dl payload # evs) w
       = processKafkaMessages tp mr d evs
           (logger ErrorLevel ''Error unmarshaling message'' (w\<lparr>clock := clock w + dl\<rparr>))"
  using assms signal_after_not_Done[OF assms(1)]
  by (simp add: ReadMessage_Arrives)

text \<open>
  Claim C1. Let the store's \<^verbatim>\<open>setProcessed\<close> fail with a retryable error exactly \<open>k\<close>
  times and then succeed (which it does only for an id that has a record), with
  \<open>k \<le> maxRetries\<close>; this covers the claim's \<open>k < maxRetries\<close>. Then, for the decoded
  message, the consume loop sends \<open>k + 1\<close> updates \<^verbatim>\<open>setProcessed(id, true)\<close> and sleeps
  \<open>k\<close> times, each time for \<open>retryDelay\<close> and each time between two consecutive
  attempts; the retry loop ends with \<^verbatim>\<open>shouldSkipMessage = false\<close> and
  \<^verbatim>\<open>processErr = nil\<close>, the last log entry reports the message as processed, and the
  record is processed. (The message is the decoded envelope: for a payload that arrives
  before any shutdown signal and decodes to it, the loop handles the message and goes on
  with the next event.) In every case, with \<open>maxRetries\<close> a count (not negative, and
  below the largest \<^verbatim>\<open>int\<close>, where the loop's counter would overflow), the loop makes
  at most \<open>maxRetries + 1\<close> attempts and sleeps at most \<open>maxRetries\<close> times per message,
  and every statement it sends is \<^verbatim>\<open>setProcessed(id, true)\<close>.
\<close>

theorem retry_policy:
  "(fails_then_succeeds k (ID message) w \<and> int k \<le> maxRetries \<longrightarrow>
      effects (processKafkaMessages_message maxRetries retryDelay message w)
        = effects w
          @ concat (replicate k [Statement (Update True (ID message)), Slept retryDelay])
          @ [Statement (Update True (ID message))]
    \<and> calls (processKafkaMessages_message maxRetries retryDelay message w)
        = calls w @ replicate (k + 1) (Update True (ID message))
    \<and> sleeps (processKafkaMessages_message maxRetries retryDelay message w)
        = sleeps w @ replicate k retryDelay
    \<and> processKafkaMessages_retry maxRetries retryDelay (ID message) 0 None
          (logger InfoLevel ''Processing Kafka message'' w)
        = (False, None, snd (snd (processKafkaMessages_retry maxRetries retryDelay (ID message) 0 None
                                    (logger InfoLevel ''Processing Kafka message'' w))))
    \<and> last (logs (processKafkaMessages_message maxRetries retryDelay message w))
        = (InfoLevel, ''Successfully processed Kafka message'')
    \<and> (\<exists>r. record_of (ID message) (processKafkaMessages_message maxRetries retryDelay message w)
              = Some r \<and> Processed r))
   \<and> (0 \<le> maxRetries \<and> maxRetries < 2 ^ 63 - 1 \<longrightarrow>
        (\<exists>n s. calls (processKafkaMessages_message maxRetries retryDelay message w)
                  = calls w @ replicate n (Update True (ID message))
              \<and> int n \<le> maxRetries + 1
              \<and> sleeps (processKafkaMessages_message maxRetries retryDelay message w)
                  = sleeps w @ replicate s retryDelay
              \<and> int s \<le> maxRetries))
   \<and> (signal_after (clock v + dl) v \<and> json_Unmarshal time_Parse payload = Inr message \<longrightarrow>
        processKafkaMessages time_Parse maxRetries retryDelay (Arrives dl payload # evs) v
          = processKafkaMessages time_Parse maxRetries retryDelay evs
              (processKafkaMessages_message maxRetries retryDelay message
                 (v\<lparr>clock := clock v + dl\<rparr>)))"
proof (intro conjI impI)
  assume a: "fails_then_succeeds k (ID message) w \<and> int k \<le> maxRetries"
  then have f: "fails_then_succeeds k (ID message) w" and le: "int k \<le> maxRetries"
    by simp_all
  let ?v = "logger InfoLevel ''Processing Kafka message'' w"
  let ?W = "processKafkaMessages_message maxRetries retryDelay message w"
  note A = message_applied[OF f le, of retryDelay]
  show e: "effects ?W = effects w
          @ concat (replicate k [Statement (Update True (ID message)), Slept retryDelay])
          @ [Statement (Update True (ID message))]"
    by (rule A(1))
  show "calls ?W = calls w @ replicate (k + 1) (Update True (ID message))"
    using calls_effects[of w]
    by (simp add: calls_effects[of ?W] e statements_of_rounds replicate_append_same)
  show "sleeps ?W = sleeps w @ replicate k retryDelay"
    using sleeps_effects[of w]
    by (simp add: sleeps_effects[of ?W] e sleeps_of_rounds)
  show "last (logs ?W) = (InfoLevel, ''Successfully processed Kafka message'')"
    by (rule A(2))
  show "\<exists>r. record_of (ID message) ?W = Some r \<and> Processed r"
    by (rule A(3))
  have "fails_then_succeeds k (ID message) ?v = fails_then_succeeds k (ID message) w"
    by (rule fails_then_succeeds_cong) simp_all
  then have f0: "fails_then_succeeds k (ID message) ?v"
    using f by simp
  have le0: "0 + int k \<le> maxRetries" using le by simp
  show "processKafkaMessages_retry maxRetries retryDelay (ID message) 0 None ?v
        = (False, None, snd (snd (processKafkaMessages_retry maxRetries retryDelay (ID message) 0 None ?v)))"
    using retry_fails_then_succeeds[OF f0 le0, of retryDelay None]
    by (simp add: prod_eq_iff)
next
  assume "0 \<le> maxRetries \<and> maxRetries < 2 ^ 63 - 1"
  then have m: "0 \<le> maxRetries" by simp
  let ?W = "processKafkaMessages_message maxRetries retryDelay message w"
  obtain n where n: "calls ?W = calls w @ replicate n (Update True (ID message))"
      "int n \<le> max 0 (maxRetries + 1)"
    using message_attempts by blast
  obtain s where s: "sleeps ?W = sleeps w @ replicate s retryDelay" "int s \<le> max 0 maxRetries"
    using message_sleeps by blast
  have "calls ?W = calls w @ replicate n (Update True (ID message))
      \<and> int n \<le> maxRetries + 1
      \<and> sleeps ?W = sleeps w @ replicate s retryDelay
      \<and> int s \<le> maxRetries"
    using n s m by simp
  then show "\<exists>n s. calls ?W = calls w @ replicate n (Update True (ID message))
              \<and> int n \<le> maxRetries + 1
              \<and> sleeps ?W = sleeps w @ replicate s retryDelay
              \<and> int s \<le> maxRetries"
    by blast
next
  assume "signal_after (clock v + dl) v \<and> json_Unmarshal time_Parse payload = Inr message"
  then have "signal_after (clock v + dl) v" and "json_Unmarshal time_Parse payload = Inr message"
    by simp_all
  then show "processKafkaMessages time_Parse maxRetries retryDelay (Arrives dl payload # evs) v
          = processKafkaMessages time_Parse maxRetries retryDelay evs
              (processKafkaMessages_message maxRetries retryDelay message
                 (v\<lparr>clock := clock v + dl\<rparr>))"
    by (rule loop_message)
qed


theorem retry_policy_witness:
  "fails_then_succeeds 2 (ID hello_message) outage_world \<and> int 2 \<le> 3
   \<and> calls (processKafkaMessages_message 3 5000 hello_message outage_world)
       = [Update True 1, Update True 1, Update True 1]
   \<and> sleeps (processKafkaMessages_message 3 5000 hello_message outage_world) = [5000, 5000]
   \<and> last (logs (processKafkaMessages_message 3 5000 hello_message outage_world))
       = (InfoLevel, ''Successfully processed Kafka message'')
   \<and> (0 :: int) \<le> 3 \<and> (3 :: int) < 2 ^ 63 - 1
   \<and> (\<exists>n. calls (processKafkaMessages_message 3 5000 hello_message outage_world)
              = replicate n (Update True 1) \<and> int n \<le> 3 + 1)
   \<and> signal_after (clock outage_world + 0) outage_world
   \<and> json_Unmarshal (\<lambda>s. None) id_1_payload = Inr hello_message
   \<and> processKafkaMessages (\<lambda>s. None) 3 5000 [Arrives 0 id_1_payload] outage_world
       = processKafkaMessages (\<lambda>s. None) 3 5000 []
           (processKafkaMessages_message 3 5000 hello_message
              (outage_world\<lparr>clock := clock outage_world + 0\<rparr>))"
proof -
  have h: "fails_then_succeeds 2 (ID hello_message) outage_world"
    by code_simp
  have i: "ID hello_message = 1" "calls outage_world = []" "sleeps outage_world = []"
    by (simp_all add: hello_message_def outage_world_def hello_world_def calls_def sleeps_def
          events_def)
  have k: "int 2 \<le> 3" "(0 :: int) \<le> 3 \<and> (3 :: int) < 2 ^ 63 - 1"
    by simp_all
  have g: "signal_after (clock outage_world + 0) outage_world"
    by (simp add: signal_after_def outage_world_def hello_world_def)
  have d: "json_Unmarshal (\<lambda>s. None) id_1_payload = Inr hello_message"
    by code_simp
  note T = retry_policy[where k = 2 and message = hello_message and w = outage_world
      and maxRetries = 3 and retryDelay = 5000 and v = outage_world and dl = 0
      and time_Parse = "\<lambda>s. None" and payload = id_1_payload and evs = "[]"]
  have a: "calls (processKafkaMessages_message 3 5000 hello_message outage_world)
             = [Update True 1, Update True 1, Update True 1]
         \<and> sleeps (processKafkaMessages_message 3 5000 hello_message outage_world) = [5000, 5000]
         \<and> last (logs (processKafkaMessages_message 3 5000 hello_message outage_world))
             = (InfoLevel, ''Successfully processed Kafka message'')"
    using T h k(1) i
    by (simp add: numeral_2_eq_2 numeral_3_eq_3 del: processKafkaMessages.simps)
  have b: "\<exists>n. calls (processKafkaMessages_message 3 5000 hello_message outage_world)
              = replicate n (Update True 1) \<and> int n \<le> 3 + 1"
    using T k(2) i by (auto simp del: processKafkaMessages.simps)
  have c: "processKafkaMessages (\<lambda>s. None) 3 5000 [Arrives 0 id_1_payload] outage_world
       = processKafkaMessages (\<lambda>s. None) 3 5000 []
           (processKafkaMessages_message 3 5000 hello_message
              (outage_world\<lparr>clock := clock outage_world + 0\<rparr>))"
    using T g d by blast
  show ?thesis
    by (intro conjI h k(1) a[THEN conjunct1] a[THEN conjunct2, THEN conjunct1]
          a[THEN conjunct2, THEN conjunct2] b g d c) simp_all
qed

subsection \<open>Errors that are not retried\<close>

lemma logs_ProcessMessage_failure:
  assumes "fst (UpdateMessageStatus i True w) = Some e"
  shows "logs (snd (ProcessMessage i w))
           = logs w @ [(InfoLevel, ''Processing message''), handleError_log ''message processing'' e]"
  using assms UpdateMessageStatus_logger(1)[of i True InfoLevel "''Processing message''" w]
  by (simp add: ProcessMessage_def split_beta logs_handleError handleError_log_def)

lemma not_retryable:
  "errors_As e = Some r \<Longrightarrow>
   ErrorCode r = ErrorCodeMessageNotFound \<or> ErrorCode r = ErrorCodeInvalidInput \<Longrightarrow>
   \<not> retryable_error e"
  by (auto simp: retryable_error_def)

lemma retry_not_retryable:
  assumes f: "fst (UpdateMessageStatus i True w) = Some e"
    and r: "errors_As e = Some r"
    and k: "ErrorCode r = ErrorCodeMessageNotFound \<or> ErrorCode r = ErrorCodeInvalidInput"
    and le: "attempt \<le> mr"
  shows "fst (processKafkaMessages_retry mr d i attempt pe w) = True"
    and "fst (snd (processKafkaMessages_retry mr d i attempt pe w)) = None"
    and "calls (snd (snd (processKafkaMessages_retry mr d i attempt pe w))) = calls w @ [Update True i]"
    and "sleeps (snd (snd (processKafkaMessages_retry mr d i attempt pe w))) = sleeps w"
    and "logs (snd (snd (processKafkaMessages_retry mr d i attempt pe w)))
           = logs w @ [(InfoLevel, ''Processing message''),
                       (WarnLevel, if ErrorCode r = ErrorCodeMessageNotFound
                                   then ''Message not found during message processing''
                                   else ''Invalid input during message processing''),
                       (WarnLevel, if ErrorCode r = ErrorCodeMessageNotFound
                                   then ''Message not found for processing''
                                   else ''Invalid message ID format'')]"
proof -
  obtain e' where e': "fst (ProcessMessage i w) = Some e'" "errors_As e' = errors_As e"
    using errors_As_ProcessMessage[OF f] by blast
  have n: "\<not> retryable_error e'"
    using not_retryable[of e' r] e'(2) r k by simp
  note eq = retry_skip[OF le e'(1) n, of d pe]
  show "fst (processKafkaMessages_retry mr d i attempt pe w) = True"
    and "fst (snd (processKafkaMessages_retry mr d i attempt pe w)) = None"
    and "calls (snd (snd (processKafkaMessages_retry mr d i attempt pe w))) = calls w @ [Update True i]"
    and "sleeps (snd (snd (processKafkaMessages_retry mr d i attempt pe w))) = sleeps w"
    by (simp_all add: eq)
  have h: "handleError_log ''message processing'' e
         = (WarnLevel, if ErrorCode r = ErrorCodeMessageNotFound
                       then ''Message not found during message processing''
                       else ''Invalid input during message processing'')"
    using r k by (auto simp: handleError_log_def)
  show "logs (snd (snd (processKafkaMessages_retry mr d i attempt pe w)))
           = logs w @ [(InfoLevel, ''Processing message''),
                       (WarnLevel, if ErrorCode r = ErrorCodeMessageNotFound
                                   then ''Message not found during message processing''
                                   else ''Invalid input during message processing''),
                       (WarnLevel, if ErrorCode r = ErrorCodeMessageNotFound
                                   then ''Message not found for processing''
                                   else ''Invalid message ID format'')]"
    using e'(2) r
    by (simp add: eq skip_switch_not_retryable[OF n] logs_ProcessMessage_failure[OF f] h)
qed


lemma message_not_retryable:
  assumes f: "fst (UpdateMessageStatus (ID m) True w) = Some e"
    and r: "errors_As e = Some r"
    and k: "ErrorCode r = ErrorCodeMessageNotFound \<or> ErrorCode r = ErrorCodeInvalidInput"
    and le: "0 \<le> mr"
  shows "calls (processKafkaMessages_message mr d m (w\<lparr>clock := t\<rparr>)) = calls w @ [Update True (ID m)]"
    and "sleeps (processKafkaMessages_message mr d m (w\<lparr>clock := t\<rparr>)) = sleeps w"
    and "logs (processKafkaMessages_message mr d m (w\<lparr>clock := t\<rparr>))
           = logs w @ [(InfoLevel, ''Processing Kafka message''),
                       (InfoLevel, ''Processing message''),
                       (WarnLevel, if ErrorCode r = ErrorCodeMessageNotFound
                                   then ''Message not found during message processing''
                                   else ''Invalid input during message processing''),
                       (WarnLevel, if ErrorCode r = ErrorCodeMessageNotFound
                                   then ''Message not found for processing''
                                   else ''Invalid message ID format''),
                       (InfoLevel, ''Successfully processed Kafka message'')]"
proof -
  let ?w0 = "logger InfoLevel ''Processing Kafka message'' (w\<lparr>clock := t\<rparr>)"
  have "fst (UpdateMessageStatus (ID m) True ?w0) = fst (UpdateMessageStatus (ID m) True w)"
    by (rule fst_UpdateMessageStatus_cong) simp_all
  then have f0: "fst (UpdateMessageStatus (ID m) True ?w0) = Some e"
    using f by simp
  note R = retry_not_retryable[OF f0 r k le, of d None]
  show "calls (processKafkaMessages_message mr d m (w\<lparr>clock := t\<rparr>)) = calls w @ [Update True (ID m)]"
    using R(3) by (simp add: message_fields)
  show "sleeps (processKafkaMessages_message mr d m (w\<lparr>clock := t\<rparr>)) = sleeps w"
    using R(4) by (simp add: message_fields)
  show "logs (processKafkaMessages_message mr d m (w\<lparr>clock := t\<rparr>))
           = logs w @ [(InfoLevel, ''Processing Kafka message''),
                       (InfoLevel, ''Processing message''),
                       (WarnLevel, if ErrorCode r = ErrorCodeMessageNotFound
                                   then ''Message not found during message processing''
                                   else ''Invalid input during message processing''),
                       (WarnLevel, if ErrorCode r = ErrorCodeMessageNotFound
                                   then ''Message not found for processing''
                                   else ''Invalid message ID format''),
                       (InfoLevel, ''Successfully processed Kafka message'')]"
    using R(1) R(5) by (simp add: message_logs)
qed

text \<open>
  Claim C2. Let \<^verbatim>\<open>setProcessed\<close> fail, for the id of a consumed and decoded envelope,
  with an error classified as NotFound or InvalidInput. Then the consume loop sends this
  one update and no other statement for the message, does not sleep, logs the outcome at
  warning level (in the service and in the loop) and nothing at error level, ends the
  message with the same log entry as a processed one, and goes on with the next event of
  the reader. The retry loop stops in the same way at whichever attempt the error occurs:
  \<^verbatim>\<open>shouldSkipMessage\<close> is true, \<^verbatim>\<open>processErr\<close> is cleared, no sleep follows.
\<close>

theorem nonretryable_skipped:
  assumes "signal_after (clock w + dl) w"
    and "json_Unmarshal time_Parse payload = Inr message"
    and "fst (UpdateMessageStatus (ID message) True w) = Some e"
    and "errors_As e = Some r"
    and "ErrorCode r = ErrorCodeMessageNotFound \<or> ErrorCode r = ErrorCodeInvalidInput"
    and "0 \<le> maxRetries"
  shows "processKafkaMessages time_Parse maxRetries retryDelay (Arrives dl payload # evs) w
           = processKafkaMessages time_Parse maxRetries retryDelay evs
               (processKafkaMessages_message maxRetries retryDelay message (w\<lparr>clock := clock w + dl\<rparr>))
       \<and> calls (processKafkaMessages_message maxRetries retryDelay message (w\<lparr>clock := clock w + dl\<rparr>))
           = calls w @ [Update True (ID message)]
       \<and> sleeps (processKafkaMessages_message maxRetries retryDelay message (w\<lparr>clock := clock w + dl\<rparr>))
           = sleeps w
       \<and> logs (processKafkaMessages_message maxRetries retryDelay message (w\<lparr>clock := clock w + dl\<rparr>))
           = logs w @ [(InfoLevel, ''Processing Kafka message''),
                       (InfoLevel, ''Processing message''),
                       (WarnLevel, if ErrorCode r = ErrorCodeMessageNotFound
                                   then ''Message not found during message processing''
                                   else ''Invalid input during message processing''),
                       (WarnLevel, if ErrorCode r = ErrorCodeMessageNotFound
                                   then ''Message not found for processing''
                                   else ''Invalid message ID format''),
                       (InfoLevel, ''Successfully processed Kafka message'')]
       \<and> (\<forall>attempt processErr w'.
            attempt \<le> maxRetries \<and> fst (UpdateMessageStatus (ID message) True w') = Some e \<longrightarrow>
              fst (processKafkaMessages_retry maxRetries retryDelay (ID message) attempt processErr w')
                = True
            \<and> fst (snd (processKafkaMessages_retry maxRetries retryDelay (ID message) attempt processErr w'))
                = None
            \<and> calls (snd (snd (processKafkaMessages_retry maxRetries retryDelay (ID message) attempt
                                  processErr w')))
                = calls w' @ [Update True (ID message)]
            \<and> sleeps (snd (snd (processKafkaMessages_retry maxRetries retryDelay (ID message) attempt
                                   processErr w')))
                = sleeps w')"
proof (intro conjI allI impI)
  show "processKafkaMessages time_Parse maxRetries retryDelay (Arrives dl payload # evs) w
           = processKafkaMessages time_Parse maxRetries retryDelay evs
               (processKafkaMessages_message maxRetries retryDelay message (w\<lparr>clock := clock w + dl\<rparr>))"
    using assms(1,2) by (rule loop_message)
next
  show "calls (processKafkaMessages_message maxRetries retryDelay message (w\<lparr>clock := clock w + dl\<rparr>))
           = calls w @ [Update True (ID message)]"
    using assms(3-6) by (rule message_not_retryable(1))
next
  show "sleeps (processKafkaMessages_message maxRetries retryDelay message (w\<lparr>clock := clock w + dl\<rparr>))
           = sleeps w"
    using assms(3-6) by (rule message_not_retryable(2))
next
  show "logs (processKafkaMessages_message maxRetries retryDelay message (w\<lparr>clock := clock w + dl\<rparr>))
           = logs w @ [(InfoLevel, ''Processing Kafka message''),
                       (InfoLevel, ''Processing message''),
                       (WarnLevel, if ErrorCode r = ErrorCodeMessageNotFound
                                   then ''Message not found during message processing''
                                   else ''Invalid input during message processing''),
                       (WarnLevel, if ErrorCode r = ErrorCodeMessageNotFound
                                   then ''Message not found for processing''
                                   else ''Invalid message ID format''),
                       (InfoLevel, ''Successfully processed Kafka message'')]"
    using assms(3-6) by (rule message_not_retryable(3))
next
  fix attempt :: int and processErr :: "err option" and w' :: world
  assume a: "attempt \<le> maxRetries \<and> fst (UpdateMessageStatus (ID message) True w') = Some e"
  then have f: "fst (UpdateMessageStatus (ID message) True w') = Some e" and le: "attempt \<le> maxRetries"
    by simp_all
  note R = retry_not_retryable[OF f assms(4,5) le, of retryDelay processErr]
  show "fst (processKafkaMessages_retry maxRetries retryDelay (ID message) attempt processErr w') = True"
    by (rule R(1))
  show "fst (snd (processKafkaMessages_retry maxRetries retryDelay (ID message) attempt processErr w')) = None"
    by (rule R(2))
  show "calls (snd (snd (processKafkaMessages_retry maxRetries retryDelay (ID message) attempt
                                  processErr w')))
                = calls w' @ [Update True (ID message)]"
    by (rule R(3))
  show "sleeps (snd (snd (processKafkaMessages_retry maxRetries retryDelay (ID message) attempt
                                   processErr w')))
                = sleeps w'"
    by (rule R(4))
qed

theorem nonretryable_skipped_witness:
  "signal_after (clock hello_world + 2) hello_world
   \<and> json_Unmarshal (\<lambda>s. None) (JSON (JObject [(''id'', JInt 7)]))
       = Inr \<lparr>ID = 7, Content = [], Processed = False, CreatedAt = 0, UpdatedAt = 0\<rparr>
   \<and> fst (UpdateMessageStatus 7 True hello_world)
       = Some (RepositoryError ErrorCodeMessageNotFound ''UpdateMessageStatus'' ErrMessageNotFound)
   \<and> (0 :: int) \<le> 3
   \<and> calls (processKafkaMessages_message 3 5000
              \<lparr>ID = 7, Content = [], Processed = False, CreatedAt = 0, UpdatedAt = 0\<rparr>
              (hello_world\<lparr>clock := clock hello_world + 2\<rparr>)) = [Update True 7]
   \<and> sleeps (processKafkaMessages_message 3 5000
              \<lparr>ID = 7, Content = [], Processed = False, CreatedAt = 0, UpdatedAt = 0\<rparr>
              (hello_world\<lparr>clock := clock hello_world + 2\<rparr>)) = []
   \<and> processKafkaMessages (\<lambda>s. None) 3 5000 [Arrives 2 (JSON (JObject [(''id'', JInt 7)]))] hello_world
       = processKafkaMessages (\<lambda>s. None) 3 5000 []
           (processKafkaMessages_message 3 5000
              \<lparr>ID = 7, Content = [], Processed = False, CreatedAt = 0, UpdatedAt = 0\<rparr>
              (hello_world\<lparr>clock := clock hello_world + 2\<rparr>))"
proof -
  let ?m = "\<lparr>ID = 7, Content = [], Processed = False, CreatedAt = 0, UpdatedAt = 0\<rparr>"
  let ?e = "RepositoryError ErrorCodeMessageNotFound ''UpdateMessageStatus'' ErrMessageNotFound"
  have h1: "signal_after (clock hello_world + 2) hello_world"
    by (simp add: signal_after_def hello_world_def)
  have h2: "json_Unmarshal (\<lambda>s. None) (JSON (JObject [(''id'', JInt 7)])) = Inr ?m"
    by code_simp
  have h3: "fst (UpdateMessageStatus (ID ?m) True hello_world) = Some ?e"
    by code_simp
  have h4: "errors_As ?e = Some (ErrorCodeMessageNotFound, ''UpdateMessageStatus'', ErrMessageNotFound)"
    by simp
  have h5: "ErrorCode (ErrorCodeMessageNotFound, ''UpdateMessageStatus'', ErrMessageNotFound)
              = ErrorCodeMessageNotFound
          \<or> ErrorCode (ErrorCodeMessageNotFound, ''UpdateMessageStatus'', ErrMessageNotFound)
              = ErrorCodeInvalidInput"
    by (simp add: ErrorCode_def)
  have h6: "(0 :: int) \<le> 3" by simp
  have c: "calls hello_world = []" "sleeps hello_world = []"
    by (simp_all add: hello_world_def calls_def sleeps_def events_def)
  note T = nonretryable_skipped[OF h1 h2 h3 h4 h5 h6, of 5000 "[]"]
  have h3': "fst (UpdateMessageStatus 7 True hello_world) = Some ?e"
    using h3 by simp
  show ?thesis
    using T h1 h2 h3' h6 c by simp
qed

subsection \<open>Only the id of the envelope is used\<close>





subsection \<open>Envelopes without an id\<close>

lemma store_field_ID:
  "f \<noteq> F_id \<Longrightarrow> store_field tp f v m = Stored m' \<Longrightarrow> ID m' = ID m"
  by (cases f) (auto simp: store_field_def split: json.splits if_splits sum.splits option.splits)

lemma json_object_ID:
  "\<forall>(k, v) \<in> set kvs. field_of_key k \<noteq> Some F_id \<Longrightarrow>
   json_object tp kvs m saved = Inr m' \<Longrightarrow> ID m' = ID m"
proof (induction kvs arbitrary: m saved)
  case Nil
  then show ?case by (simp split: option.splits)
next
  case (Cons kv kvs)
  obtain k v where kv: "kv = (k, v)" by (cases kv)
  have rest: "\<forall>(k, v) \<in> set kvs. field_of_key k \<noteq> Some F_id"
    using Cons.prems(1) by simp
  show ?case
  proof (cases "field_of_key k")
    case None
    then show ?thesis
      using Cons.prems(2) Cons.IH[OF rest] kv by simp
  next
    case (Some f)
    then have f: "f \<noteq> F_id"
      using Cons.prems(1) kv by auto
    show ?thesis
    proof (cases "store_field tp f v m")
      case (Stored m1)
      then have "json_object tp kvs m1 saved = Inr m'"
        using Cons.prems(2) kv Some by simp
      then have "ID m' = ID m1" by (rule Cons.IH[OF rest])
      then show ?thesis using store_field_ID[OF f Stored] by simp
    next
      case (TypeError e)
      then have "json_object tp kvs m (case saved of None \<Rightarrow> Some e | Some e0 \<Rightarrow> Some e0) = Inr m'"
        using Cons.prems(2) kv Some by simp
      then show ?thesis by (rule Cons.IH[OF rest])
    next
      case (Aborted e)
      then show ?thesis using Cons.prems(2) kv Some by simp
    qed
  qed
qed

lemma json_Unmarshal_without_id:
  assumes "\<forall>(k, v) \<in> set kvs. field_of_key k \<noteq> Some F_id"
    and "json_Unmarshal tp (JSON (JObject kvs)) = Inr m"
  shows "ID m = 0"
  using json_object_ID[OF assms(1), of tp zero_Message None m] assms(2)
  by (simp add: json_Unmarshal_def zero_Message_def)

subsection \<open>The ids of the store\<close>

lemma ids_positive_CreateMessage:
  "ids_positive w \<Longrightarrow> ids_positive (snd (CreateMessage content w))"
  by (auto simp: ids_positive_def ids_def CreateMessage_def db_next_def Let_def insert_row_def
           split: db_outcome.splits)

lemma ids_positive_UpdateMessageStatus:
  "ids_positive w \<Longrightarrow> ids_positive (snd (UpdateMessageStatus i b w))"
  by (simp add: ids_positive_def)

lemma ids_positive_run_store:
  "ids_positive w \<Longrightarrow> ids_positive (run_store ops w)"
  unfolding run_store_def
proof (induction ops arbitrary: w)
  case Nil
  then show ?case by simp
next
  case (Cons op ops)
  have "ids_positive (store_step op w)"
    using Cons.prems
    by (cases op) (simp_all add: ids_positive_CreateMessage ids_positive_UpdateMessageStatus)
  then show ?case
    using Cons.IH by simp
qed

lemma new_store_never_0:
  assumes "new_store w0"
  shows "0 \<notin> set (ids (run_store ops w0))"
proof -
  have "ids_positive w0"
    using assms by (simp add: new_store_def ids_positive_def ids_def)
  then have "ids_positive (run_store ops w0)"
    by (rule ids_positive_run_store)
  then show ?thesis
    by (auto simp: ids_positive_def)
qed


text \<open>
  Claim C10, as stated, fails: a payload can be syntactically valid JSON without an id
  field and still be dropped at the decode step. The empty array \<open>[]\<close> does not decode
  into a \<^verbatim>\<open>model.Message\<close>: the loop logs the error and sends no statement to the store.
  Neither does the object \<open>{"content": 5}\<close>, whose content is not a string.
\<close>

theorem envelope_without_id_counterexample:
  "json_Unmarshal (\<lambda>s. None) (JSON (JArray []))
     = Inl (ErrNew ''json: cannot unmarshal into Go value of type model.Message'')
   \<and> map_option calls
        (processKafkaMessages (\<lambda>s. None) 3 5000 [Arrives 0 (JSON (JArray []))]
           (hello_world\<lparr>cancel_at := Some 9\<rparr>)) = Some []
   \<and> map_option logs
        (processKafkaMessages (\<lambda>s. None) 3 5000 [Arrives 0 (JSON (JArray []))]
           (hello_world\<lparr>cancel_at := Some 9\<rparr>))
     = Some [(ErrorLevel, ''Error unmarshaling message''),
             (InfoLevel, ''Kafka message processor shutting down'')]
   \<and> json_Unmarshal (\<lambda>s. None) (JSON (JObject [(''content'', JInt 5)]))
     = Inl (ErrNew ''json: cannot unmarshal into Go struct field Message.content of type string'')"
  by code_simp

text \<open>
  Claim C10, amended. For every broker payload that is a JSON object in which no key
  selects the id field and that decodes into a record (the empty object \<open>{}\<close> always
  does), the decoded id is 0. In a store that started new and went through any sequence
  of creates and updates no record has id 0 (ids start at 1), so when the database
  executes the statement, \<^verbatim>\<open>setProcessed(0, true)\<close> fails with a NotFound classified
  error; the loop sends this one update, does not sleep, logs two warnings and goes on
  with the next event.
\<close>

theorem envelope_without_id:
  assumes "new_store w0"
    and "signal_after (clock (run_store ops w0) + dl) (run_store ops w0)"
    and "\<forall>(k, v) \<in> set kvs. field_of_key k \<noteq> Some F_id"
    and "json_Unmarshal time_Parse (JSON (JObject kvs)) = Inr message"
    and "next_outcome (run_store ops w0) = Executes"
    and "0 \<le> maxRetries"
  shows "ID message = 0
       \<and> json_Unmarshal time_Parse (JSON (JObject [])) = Inr zero_Message
       \<and> ID zero_Message = 0
       \<and> 0 \<notin> set (ids (run_store ops w0))
       \<and> fst (UpdateMessageStatus 0 True (run_store ops w0))
           = Some (RepositoryError ErrorCodeMessageNotFound ''UpdateMessageStatus'' ErrMessageNotFound)
       \<and> processKafkaMessages time_Parse maxRetries retryDelay
             (Arrives dl (JSON (JObject kvs)) # evs) (run_store ops w0)
           = processKafkaMessages time_Parse maxRetries retryDelay evs
               (processKafkaMessages_message maxRetries retryDelay message
                  ((run_store ops w0)\<lparr>clock := clock (run_store ops w0) + dl\<rparr>))
       \<and> calls (processKafkaMessages_message maxRetries retryDelay message
                  ((run_store ops w0)\<lparr>clock := clock (run_store ops w0) + dl\<rparr>))
           = calls (run_store ops w0) @ [Update True 0]
       \<and> sleeps (processKafkaMessages_message maxRetries retryDelay message
                  ((run_store ops w0)\<lparr>clock := clock (run_store ops w0) + dl\<rparr>))
           = sleeps (run_store ops w0)
       \<and> logs (processKafkaMessages_message maxRetries retryDelay message
                  ((run_store ops w0)\<lparr>clock := clock (run_store ops w0) + dl\<rparr>))
           = logs (run_store ops w0)
             @ [(InfoLevel, ''Processing Kafka message''),
                (InfoLevel, ''Processing message''),
                (WarnLevel, ''Message not found during message processing''),
                (WarnLevel, ''Message not found for processing''),
                (InfoLevel, ''Successfully processed Kafka message'')]"
proof -
  let ?w = "run_store ops w0"
  let ?e = "RepositoryError ErrorCodeMessageNotFound ''UpdateMessageStatus'' ErrMessageNotFound"
  let ?r = "(ErrorCodeMessageNotFound, ''UpdateMessageStatus'', ErrMessageNotFound)"
  have i: "ID message = 0"
    using assms(3,4) by (rule json_Unmarshal_without_id)
  have z: "json_Unmarshal time_Parse (JSON (JObject [])) = Inr zero_Message" "ID zero_Message = 0"
    by (simp_all add: json_Unmarshal_def zero_Message_def)
  have n: "0 \<notin> set (ids ?w)"
    using assms(1) by (rule new_store_never_0)
  have f: "fst (UpdateMessageStatus 0 True ?w) = Some ?e"
    using n assms(5) by (simp add: fst_UpdateMessageStatus_Executes)
  then have f': "fst (UpdateMessageStatus (ID message) True ?w) = Some ?e"
    using i by simp
  have r: "errors_As ?e = Some ?r"
    by simp
  have k: "ErrorCode ?r = ErrorCodeMessageNotFound \<or> ErrorCode ?r = ErrorCodeInvalidInput"
    by (simp add: ErrorCode_def)
  note M = message_not_retryable[OF f' r k assms(6), of retryDelay "clock ?w + dl"]
  have c: "ErrorCode ?r = ErrorCodeMessageNotFound"
    by (simp add: ErrorCode_def)
  have l: "logs (processKafkaMessages_message maxRetries retryDelay message
                  (?w\<lparr>clock := clock ?w + dl\<rparr>))
           = logs ?w
             @ [(InfoLevel, ''Processing Kafka message''),
                (InfoLevel, ''Processing message''),
                (WarnLevel, ''Message not found during message processing''),
                (WarnLevel, ''Message not found for processing''),
                (InfoLevel, ''Successfully processed Kafka message'')]"
    using M(3) c by simp
  have cs: "calls (processKafkaMessages_message maxRetries retryDelay message
                  (?w\<lparr>clock := clock ?w + dl\<rparr>)) = calls ?w @ [Update True 0]"
    using M(1) i by simp
  show ?thesis
    by (intro conjI i z n f loop_message[OF assms(2,4)] cs M(2) l)
qed

theorem envelope_without_id_witness:
  "new_store empty_world
   \<and> signal_after (clock (run_store [Create ''Hello''] empty_world) + 0)
       (run_store [Create ''Hello''] empty_world)
   \<and> json_Unmarshal (\<lambda>s. None) (JSON (JObject [(''content'', JString ''x'')]))
       = Inr \<lparr>ID = 0, Content = ''x'', Processed = False, CreatedAt = 0, UpdatedAt = 0\<rparr>
   \<and> next_outcome (run_store [Create ''Hello''] empty_world) = Executes
   \<and> (0 :: int) \<le> 3
   \<and> fst (UpdateMessageStatus 0 True (run_store [Create ''Hello''] empty_world))
       = Some (RepositoryError ErrorCodeMessageNotFound ''UpdateMessageStatus'' ErrMessageNotFound)
   \<and> sleeps (processKafkaMessages_message 3 5000
                \<lparr>ID = 0, Content = ''x'', Processed = False, CreatedAt = 0, UpdatedAt = 0\<rparr>
                ((run_store [Create ''Hello''] empty_world)
                   \<lparr>clock := clock (run_store [Create ''Hello''] empty_world) + 0\<rparr>))
       = sleeps (run_store [Create ''Hello''] empty_world)
   \<and> calls (processKafkaMessages_message 3 5000
                \<lparr>ID = 0, Content = ''x'', Processed = False, CreatedAt = 0, UpdatedAt = 0\<rparr>
                ((run_store [Create ''Hello''] empty_world)
                   \<lparr>clock := clock (run_store [Create ''Hello''] empty_world) + 0\<rparr>))
       = calls (run_store [Create ''Hello''] empty_world) @ [Update True 0]"
proof -
  let ?w = "run_store [Create ''Hello''] empty_world"
  let ?kvs = "[(''content'', JString ''x'')]"
  let ?m = "\<lparr>ID = 0, Content = ''x'', Processed = False, CreatedAt = 0, UpdatedAt = 0\<rparr>"
  have h1: "new_store empty_world"
    by (simp add: new_store_def empty_world_def)
  have h2: "signal_after (clock ?w + 0) ?w"
    by code_simp
  have h3: "\<forall>(k, v) \<in> set ?kvs. field_of_key k \<noteq> Some F_id"
    by code_simp
  have h4: "json_Unmarshal (\<lambda>s. None) (JSON (JObject ?kvs)) = Inr ?m"
    by code_simp
  have h5: "next_outcome ?w = Executes"
    by code_simp
  have h6: "(0 :: int) \<le> 3"
    by simp
  note T = envelope_without_id[OF h1 h2 h3 h4 h5 h6, of 5000 "[]"]
  show ?thesis
    using T h1 h2 h4 h5 by simp
qed

subsection \<open>The shutdown signal\<close>













lemma shutting_down_fields [simp]:
  "calls (shutting_down w) = calls w" "sleeps (shutting_down w) = sleeps w"
  "rows (shutting_down w) = rows w" "clock (shutting_down w) = clock w"
  by (simp_all add: shutting_down_def)





end
